theory Spec2Isabelle
  imports Complex_Main "HOL-Library.Word" "HOL-Library.Signed_Division"
begin

unbundle bit_operations_syntax

text \<open>
  The computational core of the AVR64DD32 weather station: the decoding of the
  BMP280 calibration block, the integer compensation of its raw temperature and
  pressure counts, the conversion of the SHT21 raw word, the altitude estimates and
  the refraction correction of the solar elevation. The global variables of the
  firmware are one record that every function takes and returns.
\<close>

section \<open>Machine integers and C floating-point values\<close>

type_synonym u8 = "8 word"
type_synonym u16 = "16 word"
type_synonym u32 = "32 word"
type_synonym u64 = "64 word"

text \<open>
  The C types \<open>int16_t\<close>, \<open>int32_t\<close> and \<open>int64_t\<close> are words of the same width read
  through \<open>sint\<close>; a cast from a signed type is \<open>scast\<close>, from an unsigned type
  \<open>ucast\<close>. \<open>>>\<close> on a signed operand is the arithmetic shift \<open>signed_drop_bit\<close>
  (avr-gcc), \<open><<\<close> is \<open>push_bit\<close>, and \<open>+\<close>, \<open>-\<close>, \<open>*\<close> wrap around.
\<close>

text \<open>
  C's \<open>/\<close> on \<open>int64_t\<close> truncates towards zero and is undefined for a zero
  divisor: \<open>None\<close> stands for the division by zero.
\<close>

definition c_sdiv64 :: "u64 \<Rightarrow> u64 \<Rightarrow> u64 option" where
  "c_sdiv64 a b = (if b = 0 then None else Some (word_of_int (sint a sdiv sint b)))"

text \<open>
  A \<open>float\<close> or \<open>double\<close> is a finite real or one of the IEEE-754 special values.
  Rounding, signed zeros and overflow to infinity are not represented: a finite
  result is the exact real result.
\<close>

datatype cdouble = Fin real | PInf | NInf | NaN

fun cd_neg :: "cdouble \<Rightarrow> cdouble" where
  "cd_neg (Fin x) = Fin (- x)"
| "cd_neg PInf = NInf"
| "cd_neg NInf = PInf"
| "cd_neg NaN = NaN"

fun cd_add :: "cdouble \<Rightarrow> cdouble \<Rightarrow> cdouble" where
  "cd_add NaN _ = NaN"
| "cd_add _ NaN = NaN"
| "cd_add (Fin x) (Fin y) = Fin (x + y)"
| "cd_add PInf NInf = NaN"
| "cd_add NInf PInf = NaN"
| "cd_add PInf _ = PInf"
| "cd_add NInf _ = NInf"
| "cd_add (Fin x) PInf = PInf"
| "cd_add (Fin x) NInf = NInf"

definition cd_sub :: "cdouble \<Rightarrow> cdouble \<Rightarrow> cdouble" where
  "cd_sub a b = cd_add a (cd_neg b)"

text \<open>The sign of an infinite product or quotient; zero counts as positive.\<close>

definition cd_signed_inf :: "bool \<Rightarrow> cdouble" where
  "cd_signed_inf negative = (if negative then NInf else PInf)"

fun cd_is_neg :: "cdouble \<Rightarrow> bool" where
  "cd_is_neg (Fin x) = (x < 0)"
| "cd_is_neg NInf = True"
| "cd_is_neg _ = False"

fun cd_mul :: "cdouble \<Rightarrow> cdouble \<Rightarrow> cdouble" where
  "cd_mul NaN _ = NaN"
| "cd_mul _ NaN = NaN"
| "cd_mul (Fin x) (Fin y) = Fin (x * y)"
| "cd_mul (Fin x) b = (if x = 0 then NaN else cd_signed_inf ((x < 0) \<noteq> cd_is_neg b))"
| "cd_mul a (Fin y) = (if y = 0 then NaN else cd_signed_inf (cd_is_neg a \<noteq> (y < 0)))"
| "cd_mul a b = cd_signed_inf (cd_is_neg a \<noteq> cd_is_neg b)"

fun cd_div :: "cdouble \<Rightarrow> cdouble \<Rightarrow> cdouble" where
  "cd_div NaN _ = NaN"
| "cd_div _ NaN = NaN"
| "cd_div (Fin x) (Fin y) =
     (if y \<noteq> 0 then Fin (x / y) else if x = 0 then NaN else cd_signed_inf (x < 0))"
| "cd_div (Fin x) _ = Fin 0"
| "cd_div a (Fin y) = cd_signed_inf (cd_is_neg a \<noteq> (y < 0))"
| "cd_div _ _ = NaN"

fun cd_finite :: "cdouble \<Rightarrow> bool" where
  "cd_finite (Fin x) = True"
| "cd_finite _ = False"

text \<open>Comparisons with a NaN operand are false.\<close>

fun cd_le :: "cdouble \<Rightarrow> cdouble \<Rightarrow> bool" where
  "cd_le NaN _ = False"
| "cd_le _ NaN = False"
| "cd_le (Fin x) (Fin y) = (x \<le> y)"
| "cd_le NInf _ = True"
| "cd_le _ PInf = True"
| "cd_le _ _ = False"

definition cd_gt :: "cdouble \<Rightarrow> cdouble \<Rightarrow> bool" where
  "cd_gt a b = (a \<noteq> NaN \<and> b \<noteq> NaN \<and> \<not> cd_le a b)"

subsection \<open>The libm functions the station calls\<close>

text \<open>
  \<open>exp\<close>, \<open>log\<close>, \<open>tan\<close> and \<open>pow\<close> with the special cases of C99 Annex F.
  Both calls of \<open>pow\<close> in the sources have a literal, finite exponent, so the
  exponent is a real.
\<close>

fun cd_exp :: "cdouble \<Rightarrow> cdouble" where
  "cd_exp (Fin x) = Fin (exp x)"
| "cd_exp PInf = PInf"
| "cd_exp NInf = Fin 0"
| "cd_exp NaN = NaN"

fun cd_log :: "cdouble \<Rightarrow> cdouble" where
  "cd_log (Fin x) = (if 0 < x then Fin (ln x) else if x = 0 then NInf else NaN)"
| "cd_log PInf = PInf"
| "cd_log NInf = NaN"
| "cd_log NaN = NaN"

fun cd_tan :: "cdouble \<Rightarrow> cdouble" where
  "cd_tan (Fin x) = Fin (tan x)"
| "cd_tan _ = NaN"

definition is_integer :: "real \<Rightarrow> bool" where
  "is_integer y = (of_int \<lfloor>y\<rfloor> = y)"

definition is_odd_integer :: "real \<Rightarrow> bool" where
  "is_odd_integer y = (is_integer y \<and> odd \<lfloor>y\<rfloor>)"

fun cd_pow :: "cdouble \<Rightarrow> real \<Rightarrow> cdouble" where
  "cd_pow (Fin x) y =
     (if y = 0 then Fin 1
      else if 0 < x then Fin (x powr y)
      else if x = 0 then (if 0 < y then Fin 0 else PInf)
      else if is_integer y then Fin ((if is_odd_integer y then - 1 else 1) * (\<bar>x\<bar> powr y))
      else NaN)"
| "cd_pow PInf y = (if y = 0 then Fin 1 else if 0 < y then PInf else Fin 0)"
| "cd_pow NInf y =
     (if y = 0 then Fin 1
      else if 0 < y then (if is_odd_integer y then NInf else PInf)
      else Fin 0)"
| "cd_pow NaN y = (if y = 0 then Fin 1 else NaN)"

text \<open>Conversions from the integer types.\<close>

definition cd_of_s32 :: "u32 \<Rightarrow> cdouble" where
  "cd_of_s32 w = Fin (real_of_int (sint w))"

definition cd_of_s64 :: "u64 \<Rightarrow> cdouble" where
  "cd_of_s64 w = Fin (real_of_int (sint w))"

definition cd_of_u32 :: "u32 \<Rightarrow> cdouble" where
  "cd_of_u32 w = Fin (real (unat w))"

definition cd_of_s16 :: "u16 \<Rightarrow> cdouble" where
  "cd_of_s16 w = Fin (real_of_int (sint w))"

section \<open>The global records of the station\<close>

text \<open>\<open>BMP390.h\<close>: calibration values and measurement data of the BMP280.\<close>

record BMP280Values =
  dig_T1 :: u16
  dig_T2 :: u16
  dig_T3 :: u16
  dig_P1 :: u16
  dig_P2 :: u16
  dig_P3 :: u16
  dig_P4 :: u16
  dig_P5 :: u16
  dig_P6 :: u16
  dig_P7 :: u16
  dig_P8 :: u16
  dig_P9 :: u16
  UT :: u32
  UP :: u32
  t_fine :: u32
  cal_T :: u16
  cal_p :: u32

text \<open>
  The fields \<open>T\<close> and \<open>p\<close> of \<open>BMP280Values\<close> are \<open>cal_T\<close> and \<open>cal_p\<close> here, and
  the fields \<open>T\<close> and \<open>e\<close> of \<open>SHT\<close> are \<open>sht_T\<close> and \<open>sht_e\<close>. The signed
  coefficients (\<open>int16_t\<close>) are read with \<open>sint\<close>, \<open>dig_T1\<close> and \<open>dig_P1\<close>
  (\<open>uint16_t\<close>) with \<open>uint\<close>.
\<close>

record BMP280Config =
  t_sb :: u8
  filter_coeff :: u8
  spi3w_en :: u8
  osrs_t :: u8
  osrs_p :: u8
  Mode :: u8

record BMP280Status =
  measuring :: u8
  im_update :: u8

record BMP280Result =
  ID :: u8
  Temperature :: cdouble
  Pressure :: cdouble
  CalibrationValues :: BMP280Values
  Config :: BMP280Config
  Status :: BMP280Status

text \<open>\<open>SHT45.h\<close>: settings and readings of the SHT21.\<close>

record SHT =
  OTP_DISABLE :: u8
  Heater :: u8
  Resolution :: u8
  Battery :: u8
  sht_T :: cdouble
  RH :: cdouble
  Fault :: u8
  sht_e :: cdouble

text \<open>\<open>ElAndAzComp.h\<close>: raw and adjusted solar angles.\<close>

record SunAngles =
  elevation :: cdouble
  azimuth :: cdouble
  adjelevation :: cdouble
  adjazimuth :: cdouble
  sunlevel :: u16

text \<open>\<open>Altitude.h\<close>: the three altitude estimates.\<close>

record Alt =
  UNCOMP :: cdouble
  COMP :: cdouble
  AVRG :: cdouble

text \<open>
  The global variables \<open>BMP280\<close>, \<open>SHT21\<close>, \<open>SUN\<close>, \<open>Altitude\<close> and the field
  \<open>Date_Clock.altitude\<close> (\<open>int16_t\<close>), the only field of \<open>Date_Clock\<close> that the
  functions below read.
\<close>

record station =
  BMP280 :: BMP280Result
  SHT21 :: SHT
  SUN :: SunAngles
  Altitude :: Alt
  Date_Clock_altitude :: u16

section \<open>BMP390.c: temperature and pressure compensation\<close>

text \<open>
  \<open>CalcTrueTemp\<close>: the two intermediates of the function, then the function itself.
  It stores \<open>t_fine\<close>, \<open>T\<close> and \<open>Temperature\<close> and returns \<open>T\<close> as \<open>int16_t\<close>.
\<close>

definition CalcTrueTemp_var1 :: "BMP280Values \<Rightarrow> u32" where
  "CalcTrueTemp_var1 c =
     signed_drop_bit 11
       ((signed_drop_bit 3 (UT c) - push_bit 1 (ucast (dig_T1 c) :: u32))
         * (scast (dig_T2 c) :: u32))"

definition CalcTrueTemp_var2 :: "BMP280Values \<Rightarrow> u32" where
  "CalcTrueTemp_var2 c =
     signed_drop_bit 14
       (signed_drop_bit 12
          ((signed_drop_bit 4 (UT c) - (ucast (dig_T1 c) :: u32))
            * (signed_drop_bit 4 (UT c) - (ucast (dig_T1 c) :: u32)))
         * (scast (dig_T3 c) :: u32))"

definition CalcTrueTemp :: "station \<Rightarrow> u16 \<times> station" where
  "CalcTrueTemp s =
     (let c = CalibrationValues (BMP280 s);
          var1 = CalcTrueTemp_var1 c;
          var2 = CalcTrueTemp_var2 c;
          fine = var1 + var2;
          t = signed_drop_bit 8 (fine * 5 + 128);
          c' = c\<lparr>t_fine := fine, cal_T := ucast t\<rparr>
      in (ucast t,
          s\<lparr>BMP280 := (BMP280 s)\<lparr>CalibrationValues := c',
                                   Temperature := cd_div (cd_of_s32 t) (Fin 100)\<rparr>\<rparr>))"

text \<open>
  \<open>CalcTruePres\<close>: \<open>var1\<close> as it stands at the guard, the value \<open>p\<close> after the
  division, and the function. \<open>None\<close> is the division trap.
\<close>

definition CalcTruePres_var1 :: "BMP280Values \<Rightarrow> u64" where
  "CalcTruePres_var1 c =
     signed_drop_bit 33
       ((push_bit 47 (1 :: u64) + ((scast (t_fine c) :: u64) - 128000))
         * (ucast (dig_P1 c) :: u64))"

definition CalcTruePres_var2 :: "BMP280Values \<Rightarrow> u64" where
  "CalcTruePres_var2 c =
     (let var1 = (scast (t_fine c) :: u64) - 128000;
          var2 = var1 * var1 * (scast (dig_P6 c) :: u64);
          var2 = var2 + push_bit 17 (var1 * (scast (dig_P5 c) :: u64));
          var2 = var2 + push_bit 35 (scast (dig_P4 c) :: u64)
      in var2)"

definition CalcTruePres_finish :: "BMP280Values \<Rightarrow> u64 \<Rightarrow> u64" where
  "CalcTruePres_finish c q =
     (let var1 = signed_drop_bit 25
                   ((scast (dig_P9 c) :: u64) * signed_drop_bit 13 q * signed_drop_bit 13 q);
          var2 = signed_drop_bit 19 ((scast (dig_P8 c) :: u64) * q)
      in signed_drop_bit 8 (q + var1 + var2) + push_bit 4 (scast (dig_P7 c) :: u64))"

definition CalcTruePres :: "station \<Rightarrow> (u32 \<times> station) option" where
  "CalcTruePres s =
     (let c = CalibrationValues (BMP280 s);
          var2 = CalcTruePres_var2 c;
          var1 = CalcTruePres_var1 c
      in if var1 = 0 then Some (0, s)
         else
           (let p0 = (scast (1048576 - UP c :: u32) :: u64)
            in case c_sdiv64 ((push_bit 31 p0 - var2) * 3125) var1 of
                 None \<Rightarrow> None
               | Some q \<Rightarrow>
                   (let pr = CalcTruePres_finish c q
                    in Some (ucast pr,
                             s\<lparr>BMP280 := (BMP280 s)
                                 \<lparr>Pressure := cd_div (cd_of_s64 pr) (Fin 25600),
                                  CalibrationValues := c\<lparr>cal_p := ucast pr\<rparr>\<rparr>\<rparr>))))"

text \<open>
  \<open>ReadBMP280Calibration\<close>. The I2C transport is external: \<open>ReadMulti\<close> is a
  function from the start register to the 64-bit value that the read of 8 bytes
  returns. \<open>calib_coeff data sh\<close> is the C expression
  \<^verbatim>\<open>((data >> sh) & 0xFF) << 8 | ((data >> sh) & 0xFF00) >> 8\<close> and \<open>calib_coeff0\<close> the
  one without a shift, both truncated to 16 bits by the assignment.
\<close>

definition calib00 :: u8 where "calib00 = 0x88"
definition calib08 :: u8 where "calib08 = 0x90"
definition calib16 :: u8 where "calib16 = 0x98"

definition calib_coeff :: "u64 \<Rightarrow> nat \<Rightarrow> u16" where
  "calib_coeff data sh =
     ucast (push_bit 8 (drop_bit sh data AND 0xFF) OR drop_bit 8 (drop_bit sh data AND 0xFF00))"

definition calib_coeff0 :: "u64 \<Rightarrow> u16" where
  "calib_coeff0 data = ucast (push_bit 8 (data AND 0xFF) OR drop_bit 8 (data AND 0xFF00))"

definition ReadBMP280Calibration_step :: "(u8 \<Rightarrow> u64) \<Rightarrow> u8 \<Rightarrow> BMP280Values \<Rightarrow> BMP280Values" where
  "ReadBMP280Calibration_step ReadMulti i c =
     (let (startAdd, part) =
            (if i = 1 then (calib08, 1 :: nat)
             else if i = 2 then (calib16, 2)
             else (calib00, 0));
          data = ReadMulti startAdd
      in if part = 0 then
           c\<lparr>dig_T1 := calib_coeff data 48, dig_T2 := calib_coeff data 32,
             dig_T3 := calib_coeff data 16, dig_P1 := calib_coeff0 data\<rparr>
         else if part = 1 then
           c\<lparr>dig_P2 := calib_coeff data 48, dig_P3 := calib_coeff data 32,
             dig_P4 := calib_coeff data 16, dig_P5 := calib_coeff0 data\<rparr>
         else
           c\<lparr>dig_P6 := calib_coeff data 48, dig_P7 := calib_coeff data 32,
             dig_P8 := calib_coeff data 16, dig_P9 := calib_coeff0 data\<rparr>)"

definition ReadBMP280Calibration :: "(u8 \<Rightarrow> u64) \<Rightarrow> station \<Rightarrow> station" where
  "ReadBMP280Calibration ReadMulti s =
     s\<lparr>BMP280 := (BMP280 s)\<lparr>CalibrationValues :=
         fold (ReadBMP280Calibration_step ReadMulti) [0, 1, 2]
           (CalibrationValues (BMP280 s))\<rparr>\<rparr>"

text \<open>The byte swap of a 16-bit value, as the specification names it.\<close>

definition byte_swap16 :: "u16 \<Rightarrow> u16" where
  "byte_swap16 w = push_bit 8 w OR drop_bit 8 w"

section \<open>SHT45.c: humidity or temperature from one raw word\<close>

text \<open>
  \<open>Separator\<close>. \<open>CRC8MAXIM\<close> is declared in \<open>Settings.h\<close>
  (\<^verbatim>\<open>uint16_t CRC8MAXIM(uint32_t data)\<close>) and its body is not part of the sources: it
  is a parameter. The function always returns 0.
\<close>

definition Separator :: "(u32 \<Rightarrow> u16) \<Rightarrow> u32 \<Rightarrow> station \<Rightarrow> u8 \<times> station" where
  "Separator CRC8MAXIM data s =
     (let reader = (ucast (CRC8MAXIM data) :: u32)
      in if reader AND 2 \<noteq> 0 then
           (let result = cd_div (cd_of_u32 (reader - 2)) (Fin 65536)
            in (0, s\<lparr>SHT21 := (SHT21 s)\<lparr>RH := cd_sub (cd_mul result (Fin 125)) (Fin 6)\<rparr>\<rparr>))
         else
           (let result = cd_div (cd_of_u32 reader) (Fin 65536)
            in (0, s\<lparr>SHT21 := (SHT21 s)
                    \<lparr>sht_T := cd_sub (cd_mul result (Fin 175.72)) (Fin 46.85)\<rparr>\<rparr>)))"

section \<open>ElAndAzComp.c: refraction correction of the solar elevation\<close>

definition calculate_refraction :: "station \<Rightarrow> cdouble \<times> station" where
  "calculate_refraction s =
     (if cd_le (elevation (SUN s)) (Fin 0) then (Fin 0, s)
      else
        (let elevation_rad = cd_div (cd_mul (elevation (SUN s)) (Fin pi)) (Fin 180);
             s1 = (if 0 < sint (Date_Clock_altitude s) then
                     s\<lparr>BMP280 := (BMP280 s)\<lparr>Pressure :=
                         cd_mul (Pressure (BMP280 s))
                           (cd_pow
                              (cd_sub (Fin 1)
                                 (cd_div (cd_mul (Fin 0.0065) (cd_of_s16 (Date_Clock_altitude s)))
                                    (Fin 288.15)))
                              5.255)\<rparr>\<rparr>
                   else s);
             refraction =
               cd_div (Fin 0.0167)
                 (cd_tan (cd_add elevation_rad
                            (cd_div (Fin 10.3) (cd_add (elevation (SUN s1)) (Fin 5.11)))));
             refraction =
               cd_mul refraction
                 (cd_mul (cd_div (Pressure (BMP280 s1)) (Fin 1010))
                    (cd_div (Fin 283) (cd_add (Fin 273) (sht_T (SHT21 s1)))))
         in (refraction, s1)))"

definition correct_solar_angles :: "station \<Rightarrow> station" where
  "correct_solar_angles s =
     (if cd_gt (elevation (SUN s)) (Fin 0) then
        (let (refraction, s1) = calculate_refraction s
         in s1\<lparr>SUN := (SUN s1)
               \<lparr>adjelevation := cd_add (elevation (SUN s1)) (cd_div refraction (Fin 60)),
                adjazimuth := azimuth (SUN s1)\<rparr>\<rparr>)
      else s)"

text \<open>
  \<open>Communications.c\<close>: \<open>executeCommand\<close> stores the azimuth when the command has
  a second token and the elevation when it has a third one; the date, the location
  and the time zone it also parses are not part of \<open>station\<close>. \<open>Retransmitt\<close>
  reads the command of the cycle, corrects the angles and prints. The serial
  transport is external: the tokens of the command are the arguments.
\<close>

definition executeCommand :: "cdouble option \<Rightarrow> cdouble option \<Rightarrow> station \<Rightarrow> station" where
  "executeCommand az el s =
     (let s1 = (case az of None \<Rightarrow> s | Some a \<Rightarrow> s\<lparr>SUN := (SUN s)\<lparr>azimuth := a\<rparr>\<rparr>)
      in case el of None \<Rightarrow> s1 | Some e \<Rightarrow> s1\<lparr>SUN := (SUN s1)\<lparr>elevation := e\<rparr>\<rparr>)"

definition Retransmitt :: "cdouble option \<Rightarrow> cdouble option \<Rightarrow> station \<Rightarrow> station" where
  "Retransmitt az el s = correct_solar_angles (executeCommand az el s)"

text \<open>Any number of cycles, each with the tokens of its command.\<close>

fun Retransmitt_cycles :: "(cdouble option \<times> cdouble option) list \<Rightarrow> station \<Rightarrow> station" where
  "Retransmitt_cycles [] s = s"
| "Retransmitt_cycles ((az, el) # cmds) s = Retransmitt_cycles cmds (Retransmitt az el s)"

text \<open>
  The commands of a night: every elevation that a command carries is at or below
  the horizon.
\<close>

definition below_horizon :: "(cdouble option \<times> cdouble option) list \<Rightarrow> bool" where
  "below_horizon cmds =
     list_all (\<lambda>(az, el). case el of None \<Rightarrow> True | Some e \<Rightarrow> cd_le e (Fin 0)) cmds"

section \<open>Altitude.c: altitude from pressure, temperature and humidity\<close>

definition const_T0 :: real where "const_T0 = 273.15"
definition const_A :: real where "const_A = 6.112"
definition const_B :: real where "const_B = 17.67"
definition const_C :: real where "const_C = 243.5"
definition GRAVITY :: real where "GRAVITY = 9.80665"
definition MOLAR_MASS_AIR :: real where "MOLAR_MASS_AIR = 0.0289644"
definition UNIVERSAL_GAS_CONSTANT :: real where "UNIVERSAL_GAS_CONSTANT = 8.31432"
definition SEA_LEVEL_PRESSURE :: real where "SEA_LEVEL_PRESSURE = 1013.25"

text \<open>
  The macros \<open>T0\<close>, \<open>A\<close>, \<open>B\<close> and \<open>C\<close> of \<open>Altitude.h\<close> are \<open>const_T0\<close>,
  \<open>const_A\<close>, \<open>const_B\<close> and \<open>const_C\<close> above. Below, the locals \<open>e\<close> and
  \<open>adjusted_pressure\<close> of \<open>calculate_adjusted_elevation\<close>, then the function.
\<close>

definition vapor_pressure :: "station \<Rightarrow> cdouble" where
  "vapor_pressure s =
     (let es = cd_mul (Fin const_A)
                 (cd_exp (cd_div (cd_mul (Fin const_B) (sht_T (SHT21 s)))
                            (cd_add (sht_T (SHT21 s)) (Fin const_C))))
      in cd_mul es (cd_div (RH (SHT21 s)) (Fin 100)))"

definition adjusted_pressure :: "station \<Rightarrow> cdouble" where
  "adjusted_pressure s = cd_sub (Pressure (BMP280 s)) (vapor_pressure s)"

definition calculate_adjusted_elevation :: "station \<Rightarrow> cdouble" where
  "calculate_adjusted_elevation s =
     (let temp_k = cd_add (sht_T (SHT21 s)) (Fin const_T0)
      in cd_mul
           (cd_mul (cd_div temp_k (Fin GRAVITY))
              (cd_log (cd_div (Fin SEA_LEVEL_PRESSURE) (adjusted_pressure s))))
           (cd_div (Fin UNIVERSAL_GAS_CONSTANT) (Fin MOLAR_MASS_AIR)))"

definition AltitudeAverage :: "station \<Rightarrow> station" where
  "AltitudeAverage s =
     (let uncomp = cd_mul (Fin 44330.7692307)
                     (cd_sub (cd_pow (cd_div (Pressure (BMP280 s)) (Fin SEA_LEVEL_PRESSURE))
                                (- 0.1902632))
                        (Fin 1));
          comp = calculate_adjusted_elevation s
      in s\<lparr>Altitude := \<lparr>UNCOMP = uncomp, COMP = comp,
                          AVRG = cd_div (cd_add uncomp comp) (Fin 2)\<rparr>\<rparr>)"

section \<open>The initial values and the reference example\<close>

text \<open>
  The initialisers of \<open>BMP390Var.h\<close>, \<open>SHT45Var.h\<close>, \<open>ElAndAzCompVar.h\<close>,
  \<open>AltitudeVar.h\<close> and \<open>CommunicationsVar.h\<close>; every field they do not name is zero.
\<close>

definition station_init :: station where
  "station_init =
     \<lparr>BMP280 =
        \<lparr>ID = 0x58, Temperature = Fin 0, Pressure = Fin 0,
         CalibrationValues =
           \<lparr>dig_T1 = 0, dig_T2 = 0, dig_T3 = 0, dig_P1 = 0, dig_P2 = 0, dig_P3 = 0,
            dig_P4 = 0, dig_P5 = 0, dig_P6 = 0, dig_P7 = 0, dig_P8 = 0, dig_P9 = 0,
            UT = 0x800000, UP = 0x800000, t_fine = 0, cal_T = 0, cal_p = 0\<rparr>,
         Config = \<lparr>t_sb = 0, filter_coeff = 0, spi3w_en = 0, osrs_t = 0, osrs_p = 0, Mode = 0\<rparr>,
         Status = \<lparr>measuring = 0, im_update = 0\<rparr>\<rparr>,
      SHT21 = \<lparr>OTP_DISABLE = 1, Heater = 0, Resolution = 0, Battery = 0,
               sht_T = Fin 0, RH = Fin 0, Fault = 0, sht_e = Fin 0\<rparr>,
      SUN = \<lparr>elevation = Fin 0, azimuth = Fin 0, adjelevation = Fin 0, adjazimuth = Fin 0,
             sunlevel = 0\<rparr>,
      Altitude = \<lparr>UNCOMP = Fin 0, COMP = Fin 0, AVRG = Fin 88\<rparr>,
      Date_Clock_altitude = - 50\<rparr>"

text \<open>
  The example in the comment at the end of \<open>BMP390.h\<close>: the calibration set and the
  raw counts, loaded into any station.
\<close>

definition load_reference :: "station \<Rightarrow> station" where
  "load_reference s =
     s\<lparr>BMP280 := (BMP280 s)\<lparr>CalibrationValues := (CalibrationValues (BMP280 s))
         \<lparr>dig_T1 := 27504, dig_T2 := 26435, dig_T3 := - 1000,
          dig_P1 := 36477, dig_P2 := - 10685, dig_P3 := 3024, dig_P4 := 2855,
          dig_P5 := 140, dig_P6 := - 7, dig_P7 := 15500, dig_P8 := - 14600,
          dig_P9 := 6000, UT := 519888, UP := 415148\<rparr>\<rparr>\<rparr>"

text \<open>
  A station with the pressure of the reference example (25763824 / 25600 hPa) and
  an observer altitude of 100 m, as entered on the keypad.
\<close>

definition station_at_100m :: station where
  "station_at_100m =
     station_init\<lparr>BMP280 := (BMP280 station_init)\<lparr>Pressure := Fin (25763824 / 25600)\<rparr>,
                  Date_Clock_altitude := 100\<rparr>"

text \<open>A station whose humidity sensor reports 100 % at 0 degrees while the pressure is 0.\<close>

definition station_saturated :: station where
  "station_saturated = station_init\<lparr>SHT21 := (SHT21 station_init)\<lparr>RH := Fin 100\<rparr>\<rparr>"

text \<open>The same station when a command has put the sun 10 degrees above the horizon.\<close>

definition station_daylight :: station where
  "station_daylight = executeCommand (Some (Fin 180)) (Some (Fin 10)) station_at_100m"

text \<open>
  The same station when the elevation is not a number, as \<open>atof\<close> returns for
  the token \<open>nan\<close>.
\<close>

definition station_nan_elevation :: station where
  "station_nan_elevation = executeCommand (Some (Fin 180)) (Some NaN) station_at_100m"

text \<open>
  A calibration set outside the valid range: \<open>dig_T1 = 0\<close> and \<open>dig_T2 = 32767\<close>,
  with the largest raw count of 20 bits.
\<close>

definition station_wide_calibration :: station where
  "station_wide_calibration =
     station_init\<lparr>BMP280 := (BMP280 station_init)
       \<lparr>CalibrationValues := (CalibrationValues (BMP280 station_init))
          \<lparr>dig_T1 := 0, dig_T2 := 32767, UT := 0xFFFFF\<rparr>\<rparr>\<rparr>"

section \<open>The temperature sequence of the specification\<close>

text \<open>
  The sequence of section 4.2 of the specification on unbounded integers, \<open>>>\<close>
  being the division by a power of two that rounds down: the pair
  \<open>(fine, true_temp_centiC)\<close>, and the list of every value the sequence computes
  on the way.
\<close>

definition TrueTemperature_spec :: "int \<Rightarrow> int \<Rightarrow> int \<Rightarrow> int \<Rightarrow> int \<times> int" where
  "TrueTemperature_spec raw_t T1 T2 T3 =
     (let var1 = ((raw_t div 2 ^ 3 - T1 * 2) * T2) div 2 ^ 11;
          var2 = ((((raw_t div 2 ^ 4 - T1) * (raw_t div 2 ^ 4 - T1)) div 2 ^ 12) * T3) div 2 ^ 14;
          fine = var1 + var2
      in (fine, (fine * 5 + 128) div 2 ^ 8))"

definition TrueTemperature_values :: "int \<Rightarrow> int \<Rightarrow> int \<Rightarrow> int \<Rightarrow> int list" where
  "TrueTemperature_values raw_t T1 T2 T3 =
     (let d1 = raw_t div 2 ^ 3 - T1 * 2;
          var1 = (d1 * T2) div 2 ^ 11;
          d2 = raw_t div 2 ^ 4 - T1;
          var2 = (((d2 * d2) div 2 ^ 12) * T3) div 2 ^ 14;
          fine = var1 + var2
      in [T1 * 2, d1, d1 * T2, var1, d2, d2 * d2, ((d2 * d2) div 2 ^ 12) * T3, var2,
          fine, fine * 5, fine * 5 + 128, (fine * 5 + 128) div 2 ^ 8])"

definition in_s32 :: "int \<Rightarrow> bool" where
  "in_s32 x = (- (2 ^ 31) \<le> x \<and> x < 2 ^ 31)"

text \<open>
  The valid sensor range: a raw count of 20 bits, and a calibration set whose
  coefficients keep the three products of the sequence within 32 bits for every
  such count.
\<close>

definition valid_temp_range :: "BMP280Values \<Rightarrow> bool" where
  "valid_temp_range c =
     (let T1 = uint (dig_T1 c); T2 = sint (dig_T2 c); T3 = sint (dig_T3 c);
          m1 = max (2 * T1) (131071 - 2 * T1);
          m2 = max T1 (65535 - T1)
      in 0 \<le> sint (UT c) \<and> sint (UT c) < 2 ^ 20
         \<and> m1 * \<bar>T2\<bar> < 2 ^ 31
         \<and> m2 * m2 < 2 ^ 31
         \<and> ((m2 * m2) div 2 ^ 12) * \<bar>T3\<bar> < 2 ^ 31)"

section \<open>Signed arithmetic without overflow\<close>

text \<open>
  The value of a signed operation is the mathematical one whenever that one fits the
  width: the form in which the lemmas below are applied.
\<close>

lemma s32_add:
  "sint a = x \<Longrightarrow> sint b = y \<Longrightarrow> - 2147483648 \<le> x + y \<Longrightarrow> x + y \<le> 2147483647 \<Longrightarrow>
    sint (a + b :: u32) = x + y"
  by (auto simp add: sint_word_ariths signed_take_bit_int_eq_self_iff)

lemma s32_sub:
  "sint a = x \<Longrightarrow> sint b = y \<Longrightarrow> - 2147483648 \<le> x - y \<Longrightarrow> x - y \<le> 2147483647 \<Longrightarrow>
    sint (a - b :: u32) = x - y"
  by (auto simp add: sint_word_ariths signed_take_bit_int_eq_self_iff)

lemma s32_mult:
  "sint a = x \<Longrightarrow> sint b = y \<Longrightarrow> - 2147483648 \<le> x * y \<Longrightarrow> x * y \<le> 2147483647 \<Longrightarrow>
    sint (a * b :: u32) = x * y"
  by (auto simp add: sint_word_ariths signed_take_bit_int_eq_self_iff)

lemma s64_add:
  "sint a = x \<Longrightarrow> sint b = y \<Longrightarrow> - 9223372036854775808 \<le> x + y \<Longrightarrow>
    x + y \<le> 9223372036854775807 \<Longrightarrow> sint (a + b :: u64) = x + y"
  by (auto simp add: sint_word_ariths signed_take_bit_int_eq_self_iff)

lemma s64_sub:
  "sint a = x \<Longrightarrow> sint b = y \<Longrightarrow> - 9223372036854775808 \<le> x - y \<Longrightarrow>
    x - y \<le> 9223372036854775807 \<Longrightarrow> sint (a - b :: u64) = x - y"
  by (auto simp add: sint_word_ariths signed_take_bit_int_eq_self_iff)

lemma s64_mult:
  "sint a = x \<Longrightarrow> sint b = y \<Longrightarrow> - 9223372036854775808 \<le> x * y \<Longrightarrow>
    x * y \<le> 9223372036854775807 \<Longrightarrow> sint (a * b :: u64) = x * y"
  by (auto simp add: sint_word_ariths signed_take_bit_int_eq_self_iff)

lemma s_shift: "sint w = x \<Longrightarrow> sint (signed_drop_bit n w) = x div 2 ^ n"
  by (auto simp add: sint_signed_drop_bit_eq drop_bit_eq_div)

lemma uint16_bounds: "0 \<le> uint (w :: u16) \<and> uint w \<le> 65535"
  using uint_lt2p [of w] by simp

lemma sint32_bounds: "- 2147483648 \<le> sint (w :: u32) \<and> sint w \<le> 2147483647"
  using sint_ge [of w] sint_lt [of w] by simp

lemma sint_ucast_16_32: "sint (ucast (w :: u16) :: u32) = uint w"
proof -
  have "- 2147483648 \<le> uint w \<and> uint w < 2147483648"
    using uint16_bounds [of w] by linarith
  then show ?thesis
    by (simp add: signed_ucast_eq signed_take_bit_int_eq_self_iff)
qed

lemma sint_ucast_16_64: "sint (ucast (w :: u16) :: u64) = uint w"
proof -
  have "- 9223372036854775808 \<le> uint w \<and> uint w < 9223372036854775808"
    using uint16_bounds [of w] by linarith
  then show ?thesis
    by (simp add: signed_ucast_eq signed_take_bit_int_eq_self_iff)
qed

lemma sint_scast_16_32: "sint (scast (w :: u16) :: u32) = sint w"
  by (simp add: sint_up_scast is_up)

lemma sint_scast_32_64: "sint (scast (w :: u32) :: u64) = sint w"
  by (simp add: sint_up_scast is_up)

lemma sint_ucast_32_16:
  assumes "sint (w :: u32) = x" "- 32768 \<le> x" "x \<le> 32767"
  shows "sint (ucast w :: u16) = x"
proof -
  have "sint (ucast w :: u16) = signed_take_bit 15 (uint w)"
    by (simp add: signed_ucast_eq)
  also have "\<dots> = signed_take_bit 15 (signed_take_bit 31 (uint w))"
    by (simp add: signed_take_bit_signed_take_bit)
  also have "\<dots> = signed_take_bit 15 (sint w)"
    by (simp add: sint_uint)
  also have "\<dots> = x"
    using assms by (simp add: signed_take_bit_int_eq_self_iff)
  finally show ?thesis .
qed

lemma unat_ucast_16_32: "unat (ucast (r :: u16) :: u32) = unat r"
proof -
  have "uint (ucast r :: u32) = uint r"
    by (rule uint_up_ucast) (simp add: is_up)
  then show ?thesis
    by (metis nat_uint_eq)
qed

text \<open>A product of two integers, one of them bounded by \<open>m\<close>, stays within \<open>m * \<bar>b\<bar>\<close>.\<close>

lemma abs_product_within:
  fixes a b m :: int
  assumes "\<bar>a\<bar> \<le> m" and "m * \<bar>b\<bar> \<le> 2147483647"
  shows "- 2147483648 \<le> a * b \<and> a * b \<le> 2147483647"
proof -
  have "\<bar>a * b\<bar> = \<bar>a\<bar> * \<bar>b\<bar>"
    by (rule abs_mult)
  also have "\<dots> \<le> m * \<bar>b\<bar>"
    using assms(1) by (intro mult_right_mono) simp_all
  finally have "\<bar>a * b\<bar> \<le> 2147483647"
    using assms(2) by linarith
  then show ?thesis
    by linarith
qed

lemma div_within:
  fixes x lo hi d :: int
  assumes "0 < d" "lo * d \<le> x" "x \<le> hi * d"
  shows "lo \<le> x div d \<and> x div d \<le> hi"
proof -
  have "(lo * d) div d \<le> x div d"
    using assms by (intro zdiv_mono1)
  moreover have "x div d \<le> (hi * d) div d"
    using assms by (intro zdiv_mono1)
  moreover have "(lo * d) div d = lo" "(hi * d) div d = hi"
    using assms by simp_all
  ultimately show ?thesis
    by simp
qed

lemma raw_count_shifts:
  fixes x :: int
  assumes "0 \<le> x \<and> x \<le> 1048575"
  shows "0 \<le> x div 2 ^ 3" "x div 2 ^ 3 \<le> 131071" "0 \<le> x div 2 ^ 4" "x div 2 ^ 4 \<le> 65535"
proof -
  have "0 \<le> x div 8 \<and> x div 8 \<le> 131071 \<and> 0 \<le> x div 16 \<and> x div 16 \<le> 65535"
    using assms by presburger
  then show "0 \<le> x div 2 ^ 3" "x div 2 ^ 3 \<le> 131071" "0 \<le> x div 2 ^ 4" "x div 2 ^ 4 \<le> 65535"
    by simp_all
qed

section \<open>The floating-point model\<close>

lemma cd_add_NaN_right [simp]: "cd_add a NaN = NaN"
  by (cases a) simp_all

lemma cd_mul_NaN_right [simp]: "cd_mul a NaN = NaN"
  by (cases a) simp_all

lemma cd_gt_Fin: "cd_gt (Fin x) (Fin y) \<longleftrightarrow> y < x"
  by (auto simp add: cd_gt_def)

lemma cd_le_imp_not_gt: "cd_le a b \<Longrightarrow> \<not> cd_gt a b"
  by (simp add: cd_gt_def)

lemma cd_gt_iff_not_le: "a \<noteq> NaN \<Longrightarrow> cd_gt a (Fin y) \<longleftrightarrow> \<not> cd_le a (Fin y)"
  by (simp add: cd_gt_def)

lemma cd_mul_infinite_left: "\<not> cd_finite b \<Longrightarrow> \<not> cd_finite (cd_mul a b)"
  by (cases a; cases b) (simp_all add: cd_signed_inf_def)

lemma cd_mul_infinite_right: "\<not> cd_finite a \<Longrightarrow> y \<noteq> 0 \<Longrightarrow> \<not> cd_finite (cd_mul a (Fin y))"
  by (cases a) (simp_all add: cd_signed_inf_def)

lemma cd_add_infinite: "\<not> cd_finite b \<Longrightarrow> \<not> cd_finite (cd_add a b)"
  by (cases a; cases b) simp_all

lemma cd_div_infinite: "\<not> cd_finite a \<Longrightarrow> \<not> cd_finite (cd_div a (Fin y))"
  by (cases a) (simp_all add: cd_signed_inf_def)

lemma powr_lt_one:
  fixes b y :: real
  assumes "0 < b" "b < 1" "0 < y"
  shows "b powr y < 1"
  using assms by (simp add: powr01_less_one)

section \<open>The reference example\<close>

lemma CalcTrueTemp_var1_reference:
  "CalcTrueTemp_var1 (CalibrationValues (BMP280 (load_reference s))) = 128793"
  by (simp add: CalcTrueTemp_var1_def load_reference_def)

lemma CalcTrueTemp_var2_reference:
  "CalcTrueTemp_var2 (CalibrationValues (BMP280 (load_reference s))) = - 371"
  by (simp add: CalcTrueTemp_var2_def load_reference_def)

lemma CalcTrueTemp_reference:
  "CalcTrueTemp (load_reference s) =
     (2508, (load_reference s)\<lparr>BMP280 := (BMP280 (load_reference s))
        \<lparr>CalibrationValues := (CalibrationValues (BMP280 (load_reference s)))
            \<lparr>t_fine := 128422, cal_T := 2508\<rparr>,
         Temperature := Fin (2508 / 100)\<rparr>\<rparr>)"
  by (simp add: CalcTrueTemp_def Let_def CalcTrueTemp_var1_reference CalcTrueTemp_var2_reference
      cd_of_s32_def)

lemma CalcTruePres_var1_reference:
  "CalcTruePres_var1 (CalibrationValues (BMP280 (snd (CalcTrueTemp (load_reference s)))))
     = 597639168"
  by (simp add: CalcTrueTemp_reference) (simp add: CalcTruePres_var1_def load_reference_def)

lemma CalcTruePres_var2_reference:
  "CalcTruePres_var2 (CalibrationValues (BMP280 (snd (CalcTrueTemp (load_reference s)))))
     = 98104795527812"
  by (simp add: CalcTrueTemp_reference) (simp add: CalcTruePres_var2_def load_reference_def)

lemma UP_reference:
  "UP (CalibrationValues (BMP280 (snd (CalcTrueTemp (load_reference s))))) = 415148"
  by (simp add: CalcTrueTemp_reference) (simp add: load_reference_def)

lemma c_sdiv64_reference:
  "c_sdiv64 3944285864554787500 597639168 = Some 6599778052"
  by (simp add: c_sdiv64_def signed_divide_int_def)

lemma CalcTruePres_finish_reference:
  "CalcTruePres_finish (CalibrationValues (BMP280 (snd (CalcTrueTemp (load_reference s)))))
     6599778052 = 25763824"
  by (simp add: CalcTrueTemp_reference) (simp add: CalcTruePres_finish_def load_reference_def)

text \<open>
  Claim C1. With the reference calibration set and the raw counts \<open>UT = 519888\<close>,
  \<open>UP = 415148\<close> loaded into any station, \<open>CalcTrueTemp\<close> returns 2508 and
  publishes 25.08 degrees, and \<open>CalcTruePres\<close>, run on the state that the temperature step leaves, returns
  \<open>p = 25763824\<close>; \<open>p / 25600\<close> is less than 0.01 hPa away from 1006.399, and it is
  the pressure the function publishes.
\<close>

theorem reference_example:
  "sint (fst (CalcTrueTemp (load_reference s))) = 2508 \<and>
   Temperature (BMP280 (snd (CalcTrueTemp (load_reference s)))) = Fin 25.08 \<and>
   (case CalcTruePres (snd (CalcTrueTemp (load_reference s))) of
      None \<Rightarrow> False
    | Some (pr, s') \<Rightarrow>
        pr = 25763824 \<and> \<bar>real (unat pr) / 25600 - 1006.399\<bar> < 0.01
        \<and> Pressure (BMP280 s') = Fin (real (unat pr) / 25600))"
proof -
  have "sint (fst (CalcTrueTemp (load_reference s))) = 2508"
    by (simp add: CalcTrueTemp_reference)
  moreover have "Temperature (BMP280 (snd (CalcTrueTemp (load_reference s)))) = Fin 25.08"
    by (simp add: CalcTrueTemp_reference)
  moreover have "\<bar>real (unat (25763824 :: u32)) / 25600 - 1006.399\<bar> < 0.01"
    by simp
  ultimately show ?thesis
    by (simp add: CalcTruePres_def Let_def CalcTruePres_var1_reference
        CalcTruePres_var2_reference UP_reference c_sdiv64_reference
        CalcTruePres_finish_reference cd_of_s64_def)
qed

section \<open>The guard of the pressure compensation\<close>

lemma CalcTruePres_var1_factor:
  "sint (push_bit 47 (1 :: u64) + ((scast (t_fine c) :: u64) - 128000))
     = 140737488355328 + (sint (t_fine c) - 128000)"
proof -
  have "sint (scast (t_fine c) :: u64) = sint (t_fine c)"
    by (rule sint_scast_32_64)
  moreover have "sint (128000 :: u64) = 128000"
    by simp
  ultimately have a: "sint ((scast (t_fine c) :: u64) - 128000) = sint (t_fine c) - 128000"
    by (rule s64_sub) (use sint32_bounds [of "t_fine c"] in linarith)+
  have "sint (push_bit 47 (1 :: u64)) = 140737488355328"
    by simp
  then show ?thesis
    using a by (rule s64_add) (use sint32_bounds [of "t_fine c"] in linarith)+
qed

lemma CalcTruePres_var1_product_bounds:
  fixes a p1 :: int
  assumes "140735340743680 \<le> a" "a \<le> 140739635710975" "0 \<le> p1" "p1 \<le> 65535"
  shows "0 \<le> a * p1 \<and> a * p1 \<le> 9223372036854775807"
proof -
  have "0 \<le> a * p1"
    using assms by (intro mult_nonneg_nonneg) linarith+
  moreover have "a * p1 \<le> 140739635710975 * 65535"
    using assms by (intro mult_mono) linarith+
  ultimately show ?thesis
    by simp
qed

text \<open>
  \<open>var1\<close> at the guard is the value of the formula on unbounded integers: the
  product does not overflow 64 bits.
\<close>

lemma CalcTruePres_var1_int:
  "sint (CalcTruePres_var1 c) =
     ((2 ^ 47 + (sint (t_fine c) - 128000)) * uint (dig_P1 c)) div 2 ^ 33"
proof -
  let ?x = "push_bit 47 (1 :: u64) + ((scast (t_fine c) :: u64) - 128000)"
  let ?y = "ucast (dig_P1 c) :: u64"
  define a where "a = 140737488355328 + (sint (t_fine c) - 128000)"
  define b where "b = uint (dig_P1 c)"
  have x: "sint ?x = a"
    unfolding a_def by (rule CalcTruePres_var1_factor)
  have y: "sint ?y = b"
    unfolding b_def by (rule sint_ucast_16_64)
  have "0 \<le> a * b \<and> a * b \<le> 9223372036854775807"
    using sint32_bounds [of "t_fine c"] uint16_bounds [of "dig_P1 c"]
    unfolding a_def b_def by (intro CalcTruePres_var1_product_bounds) linarith+
  then have "- 9223372036854775808 \<le> a * b" "a * b \<le> 9223372036854775807"
    by linarith+
  with x y have "sint (?x * ?y) = a * b"
    by (rule s64_mult)
  then have "sint (CalcTruePres_var1 c) = (a * b) div 2 ^ 33"
    unfolding CalcTruePres_var1_def by (rule s_shift)
  then show ?thesis
    by (simp add: a_def b_def)
qed

text \<open>The guard triggers exactly when \<open>dig_P1\<close> is zero.\<close>

lemma CalcTruePres_var1_zero_iff: "CalcTruePres_var1 c = 0 \<longleftrightarrow> dig_P1 c = 0"
proof
  define a where "a = 140737488355328 + (sint (t_fine c) - 128000)"
  assume "CalcTruePres_var1 c = 0"
  then have "sint (CalcTruePres_var1 c) = 0"
    by simp
  then have z: "(a * uint (dig_P1 c)) div 8589934592 = 0"
    by (simp add: CalcTruePres_var1_int a_def)
  have a: "8589934592 \<le> a" "0 \<le> a"
    using sint32_bounds [of "t_fine c"] unfolding a_def by linarith+
  have "uint (dig_P1 c) = 0"
  proof (rule ccontr)
    assume "uint (dig_P1 c) \<noteq> 0"
    then have "1 \<le> uint (dig_P1 c)"
      using uint16_bounds [of "dig_P1 c"] by linarith
    then have "a * 1 \<le> a * uint (dig_P1 c)"
      using a by (intro mult_left_mono)
    then have "a \<le> a * uint (dig_P1 c)"
      by (simp only: mult.right_neutral)
    then have "8589934592 \<le> a * uint (dig_P1 c)"
      using a by linarith
    then have "8589934592 div 8589934592 \<le> (a * uint (dig_P1 c)) div (8589934592 :: int)"
      by (intro zdiv_mono1) simp_all
    with z show False
      by simp
  qed
  then show "dig_P1 c = 0"
    by (simp add: uint_0_iff)
next
  assume "dig_P1 c = 0"
  then show "CalcTruePres_var1 c = 0"
    by (simp add: CalcTruePres_var1_def)
qed

text \<open>
  Claim C2. \<open>CalcTruePres\<close> never divides by zero (it never yields the trap
  \<open>None\<close>), for every calibration set, raw count and \<open>t_fine\<close>; \<open>var1\<close> at the
  guard is the value of \<open>(((1 << 47) + (t_fine - 128000)) * dig_P1) >> 33\<close> on
  unbounded integers; and when that value is 0 the function returns 0.
\<close>

theorem CalcTruePres_guard:
  "CalcTruePres s \<noteq> None
   \<and> sint (CalcTruePres_var1 (CalibrationValues (BMP280 s)))
       = ((2 ^ 47 + (sint (t_fine (CalibrationValues (BMP280 s))) - 128000))
            * uint (dig_P1 (CalibrationValues (BMP280 s)))) div 2 ^ 33
   \<and> (((2 ^ 47 + (sint (t_fine (CalibrationValues (BMP280 s))) - 128000))
            * uint (dig_P1 (CalibrationValues (BMP280 s)))) div 2 ^ 33 = 0 \<longrightarrow>
        map_option fst (CalcTruePres s) = Some 0)"
proof -
  have "CalcTruePres s \<noteq> None"
    by (simp add: CalcTruePres_def Let_def c_sdiv64_def)
  moreover have "CalcTruePres_var1 (CalibrationValues (BMP280 s)) = 0 \<Longrightarrow>
      map_option fst (CalcTruePres s) = Some 0"
    by (simp add: CalcTruePres_def Let_def)
  moreover have "sint (CalcTruePres_var1 (CalibrationValues (BMP280 s))) = 0 \<Longrightarrow>
      CalcTruePres_var1 (CalibrationValues (BMP280 s)) = 0"
    by (simp add: signed_eq_0_iff)
  ultimately show ?thesis
    by (simp only: CalcTruePres_var1_int [symmetric]) blast
qed

theorem CalcTruePres_guard_witness:
  "((2 ^ 47 + (sint (t_fine (CalibrationValues (BMP280 station_init))) - 128000))
      * uint (dig_P1 (CalibrationValues (BMP280 station_init)))) div 2 ^ 33 = 0
   \<and> CalcTruePres station_init \<noteq> None
   \<and> map_option fst (CalcTruePres station_init) = Some 0"
proof -
  have "((2 ^ 47 + (sint (t_fine (CalibrationValues (BMP280 station_init))) - 128000))
      * uint (dig_P1 (CalibrationValues (BMP280 station_init)))) div 2 ^ 33 = 0"
    by (simp add: station_init_def)
  with CalcTruePres_guard [of station_init] show ?thesis
    by blast
qed

text \<open>
  Claim C9. When the guard \<open>var1 == 0\<close> triggers, \<open>CalcTruePres\<close> returns 0 and
  the station is unchanged: neither \<open>BMP280.Pressure\<close> nor
  \<open>BMP280.CalibrationValues.p\<close> is written, so both keep the values they had.
\<close>

theorem CalcTruePres_guard_keeps_state:
  assumes "CalcTruePres_var1 (CalibrationValues (BMP280 s)) = 0"
  shows "CalcTruePres s = Some (0, s)
         \<and> (\<forall>s'. map_option snd (CalcTruePres s) = Some s' \<longrightarrow>
               Pressure (BMP280 s') = Pressure (BMP280 s)
               \<and> cal_p (CalibrationValues (BMP280 s')) = cal_p (CalibrationValues (BMP280 s)))"
  using assms by (simp add: CalcTruePres_def Let_def)

theorem CalcTruePres_guard_keeps_state_witness:
  "CalcTruePres_var1 (CalibrationValues (BMP280 station_at_100m)) = 0
   \<and> CalcTruePres station_at_100m = Some (0, station_at_100m)
   \<and> Pressure (BMP280 (snd (the (CalcTruePres station_at_100m)))) = Fin (25763824 / 25600)"
proof -
  have z: "CalcTruePres_var1 (CalibrationValues (BMP280 station_at_100m)) = 0"
    by (simp add: CalcTruePres_var1_zero_iff station_at_100m_def station_init_def)
  have "Pressure (BMP280 station_at_100m) = Fin (25763824 / 25600)"
    by (simp add: station_at_100m_def station_init_def)
  with z CalcTruePres_guard_keeps_state [OF z] show ?thesis
    by simp
qed

section \<open>The temperature compensation follows the vendor sequence\<close>

lemma CalcTrueTemp_var1_int:
  assumes "valid_temp_range c"
  defines "p1 \<equiv> (sint (UT c) div 2 ^ 3 - uint (dig_T1 c) * 2) * sint (dig_T2 c)"
  shows "sint (CalcTrueTemp_var1 c) = p1 div 2 ^ 11 \<and> - 2147483648 \<le> p1 \<and> p1 \<le> 2147483647"
proof -
  define u3 where "u3 = sint (UT c) div 2 ^ 3"
  define T1 where "T1 = uint (dig_T1 c)"
  define T2 where "T2 = sint (dig_T2 c)"
  define m1 where "m1 = max (2 * T1) (131071 - 2 * T1)"
  have "0 \<le> sint (UT c) \<and> sint (UT c) \<le> 1048575"
    using assms(1) by (simp add: valid_temp_range_def Let_def)
  then have u3: "0 \<le> u3" "u3 \<le> 131071"
    unfolding u3_def by (rule raw_count_shifts)+
  have T1: "0 \<le> T1" "T1 \<le> 65535"
    using uint16_bounds [of "dig_T1 c"] by (simp_all add: T1_def)
  have m1: "m1 * \<bar>T2\<bar> \<le> 2147483647"
    using assms(1) by (simp add: valid_temp_range_def Let_def m1_def T1_def T2_def)
  have a: "sint (signed_drop_bit 3 (UT c)) = u3"
    unfolding u3_def by (rule s_shift) simp
  have "sint (ucast (dig_T1 c) :: u32) = T1"
    by (simp add: sint_ucast_16_32 T1_def)
  moreover have "sint (2 :: u32) = 2"
    by simp
  ultimately have "sint ((ucast (dig_T1 c) :: u32) * 2) = T1 * 2"
    by (rule s32_mult) (use T1 in linarith)+
  then have b: "sint (push_bit 1 (ucast (dig_T1 c) :: u32)) = T1 * 2"
    by (simp add: push_bit_eq_mult)
  have d: "sint (signed_drop_bit 3 (UT c) - push_bit 1 (ucast (dig_T1 c) :: u32)) = u3 - T1 * 2"
    using a b by (rule s32_sub) (use u3 T1 in linarith)+
  have "\<bar>u3 - T1 * 2\<bar> \<le> m1"
    using u3 T1 unfolding m1_def by linarith
  then have pb: "- 2147483648 \<le> (u3 - T1 * 2) * T2 \<and> (u3 - T1 * 2) * T2 \<le> 2147483647"
    using m1 by (rule abs_product_within)
  have "sint (scast (dig_T2 c) :: u32) = T2"
    by (simp add: sint_scast_16_32 T2_def)
  with d have "sint ((signed_drop_bit 3 (UT c) - push_bit 1 (ucast (dig_T1 c) :: u32))
               * (scast (dig_T2 c) :: u32)) = (u3 - T1 * 2) * T2"
    by (rule s32_mult) (use pb in simp_all)
  then have "sint (CalcTrueTemp_var1 c) = ((u3 - T1 * 2) * T2) div 2 ^ 11"
    unfolding CalcTrueTemp_var1_def by (rule s_shift)
  with pb show ?thesis
    by (simp add: p1_def u3_def T1_def T2_def)
qed

lemma CalcTrueTemp_var2_int:
  assumes "valid_temp_range c"
  defines "d \<equiv> sint (UT c) div 2 ^ 4 - uint (dig_T1 c)"
  defines "p2 \<equiv> ((d * d) div 2 ^ 12) * sint (dig_T3 c)"
  shows "sint (CalcTrueTemp_var2 c) = p2 div 2 ^ 14
         \<and> - 2147483648 \<le> d * d \<and> d * d \<le> 2147483647
         \<and> - 2147483648 \<le> p2 \<and> p2 \<le> 2147483647"
proof -
  define u4 where "u4 = sint (UT c) div 2 ^ 4"
  define T1 where "T1 = uint (dig_T1 c)"
  define T3 where "T3 = sint (dig_T3 c)"
  define m2 where "m2 = max T1 (65535 - T1)"
  have "0 \<le> sint (UT c) \<and> sint (UT c) \<le> 1048575"
    using assms(1) by (simp add: valid_temp_range_def Let_def)
  then have u4: "0 \<le> u4" "u4 \<le> 65535"
    unfolding u4_def by (rule raw_count_shifts)+
  have T1: "0 \<le> T1" "T1 \<le> 65535"
    using uint16_bounds [of "dig_T1 c"] by (simp_all add: T1_def)
  have m2: "m2 * m2 \<le> 2147483647" "((m2 * m2) div 2 ^ 12) * \<bar>T3\<bar> \<le> 2147483647"
    using assms(1) by (simp_all add: valid_temp_range_def Let_def m2_def T1_def T3_def)
  have d: "d = u4 - T1"
    by (simp add: d_def u4_def T1_def)
  have dm: "\<bar>d\<bar> \<le> m2" "0 \<le> m2"
    using u4 T1 unfolding d m2_def by linarith+
  have a: "sint (signed_drop_bit 4 (UT c)) = u4"
    unfolding u4_def by (rule s_shift) simp
  have b: "sint (ucast (dig_T1 c) :: u32) = T1"
    by (simp add: sint_ucast_16_32 T1_def)
  have w: "sint (signed_drop_bit 4 (UT c) - (ucast (dig_T1 c) :: u32)) = d"
    unfolding d using a b by (rule s32_sub) (use u4 T1 in linarith)+
  have "\<bar>d\<bar> * \<bar>d\<bar> \<le> m2 * m2"
    using dm by (intro mult_mono) simp_all
  then have sq: "0 \<le> d * d" "d * d \<le> m2 * m2"
    by simp_all
  then have sqb: "- 2147483648 \<le> d * d" "d * d \<le> 2147483647"
    using m2(1) by linarith+
  have ww: "sint ((signed_drop_bit 4 (UT c) - (ucast (dig_T1 c) :: u32))
               * (signed_drop_bit 4 (UT c) - (ucast (dig_T1 c) :: u32))) = d * d"
    using w w by (rule s32_mult) (use sqb in simp_all)
  have sh: "0 \<le> (d * d) div 2 ^ 12" "(d * d) div 2 ^ 12 \<le> (m2 * m2) div 2 ^ 12"
  proof -
    show "0 \<le> (d * d) div 2 ^ 12"
      using sq(1) by (rule pos_imp_zdiv_nonneg_iff [THEN iffD2, rotated]) simp
    show "(d * d) div 2 ^ 12 \<le> (m2 * m2) div 2 ^ 12"
      using sq(2) by (rule zdiv_mono1) simp
  qed
  have "\<bar>(d * d) div 2 ^ 12\<bar> \<le> (m2 * m2) div 2 ^ 12"
    using sh by linarith
  then have pb: "- 2147483648 \<le> p2 \<and> p2 \<le> 2147483647"
    unfolding p2_def T3_def [symmetric] using m2(2) by (rule abs_product_within)
  have "sint (signed_drop_bit 12 ((signed_drop_bit 4 (UT c) - (ucast (dig_T1 c) :: u32))
               * (signed_drop_bit 4 (UT c) - (ucast (dig_T1 c) :: u32)))) = (d * d) div 2 ^ 12"
    using ww by (rule s_shift)
  moreover have "sint (scast (dig_T3 c) :: u32) = T3"
    by (simp add: sint_scast_16_32 T3_def)
  ultimately have "sint (signed_drop_bit 12 ((signed_drop_bit 4 (UT c) - (ucast (dig_T1 c) :: u32))
               * (signed_drop_bit 4 (UT c) - (ucast (dig_T1 c) :: u32))) * (scast (dig_T3 c) :: u32))
             = p2"
    unfolding p2_def T3_def [symmetric] by (rule s32_mult) (use pb in \<open>simp_all add: p2_def T3_def\<close>)
  then have "sint (CalcTrueTemp_var2 c) = p2 div 2 ^ 14"
    unfolding CalcTrueTemp_var2_def by (rule s_shift)
  with pb sqb show ?thesis
    by simp
qed

text \<open>
  Claim C7. In the valid sensor range (a raw count of 20 bits and a calibration set
  within \<open>valid_temp_range\<close>), every value of the vendor sequence fits signed 32
  bits, so that nothing overflows; the \<open>t_fine\<close> that \<open>CalcTrueTemp\<close> stores and
  the value it returns are the \<open>fine\<close> and the \<open>(fine * 5 + 128) >> 8\<close> of the
  sequence on unbounded integers; and the temperature step changes nothing else
  of the calibration record that the pressure step reads.
\<close>

theorem CalcTrueTemp_vendor_sequence:
  assumes "valid_temp_range (CalibrationValues (BMP280 s))"
  defines "c \<equiv> CalibrationValues (BMP280 s)"
  shows "list_all in_s32
           (TrueTemperature_values (sint (UT c)) (uint (dig_T1 c)) (sint (dig_T2 c))
              (sint (dig_T3 c)))
         \<and> (sint (t_fine (CalibrationValues (BMP280 (snd (CalcTrueTemp s))))),
            sint (fst (CalcTrueTemp s)))
           = TrueTemperature_spec (sint (UT c)) (uint (dig_T1 c)) (sint (dig_T2 c))
               (sint (dig_T3 c))
         \<and> CalibrationValues (BMP280 (snd (CalcTrueTemp s)))
           = c\<lparr>t_fine := t_fine (CalibrationValues (BMP280 (snd (CalcTrueTemp s)))),
               cal_T := fst (CalcTrueTemp s)\<rparr>"
proof -
  define u3 where "u3 = sint (UT c) div 2 ^ 3"
  define u4 where "u4 = sint (UT c) div 2 ^ 4"
  define T1 where "T1 = uint (dig_T1 c)"
  define p1 where "p1 = (u3 - T1 * 2) * sint (dig_T2 c)"
  define d2 where "d2 = u4 - T1"
  define p2 where "p2 = ((d2 * d2) div 2 ^ 12) * sint (dig_T3 c)"
  define var1 where "var1 = p1 div 2 ^ 11"
  define var2 where "var2 = p2 div 2 ^ 14"
  define fine where "fine = var1 + var2"
  define t where "t = (fine * 5 + 128) div 2 ^ 8"
  have v: "valid_temp_range c"
    using assms by simp
  have "0 \<le> sint (UT c) \<and> sint (UT c) \<le> 1048575"
    using v by (simp add: valid_temp_range_def Let_def)
  then have u: "0 \<le> u3" "u3 \<le> 131071" "0 \<le> u4" "u4 \<le> 65535"
    unfolding u3_def u4_def by (rule raw_count_shifts)+
  have T1: "0 \<le> T1" "T1 \<le> 65535"
    using uint16_bounds [of "dig_T1 c"] by (simp_all add: T1_def)
  have w1: "sint (CalcTrueTemp_var1 c) = var1" and p1: "- 2147483648 \<le> p1" "p1 \<le> 2147483647"
    using CalcTrueTemp_var1_int [OF v] by (simp_all add: var1_def p1_def u3_def T1_def)
  have w2: "sint (CalcTrueTemp_var2 c) = var2"
    and sq: "- 2147483648 \<le> d2 * d2" "d2 * d2 \<le> 2147483647"
    and p2: "- 2147483648 \<le> p2" "p2 \<le> 2147483647"
    using CalcTrueTemp_var2_int [OF v] by (simp_all add: var2_def p2_def d2_def u4_def T1_def)
  have var1: "- 1048576 \<le> var1 \<and> var1 \<le> 1048576"
    unfolding var1_def using p1 by (intro div_within) simp_all
  have var2: "- 131072 \<le> var2 \<and> var2 \<le> 131072"
    unfolding var2_def using p2 by (intro div_within) simp_all
  have fine: "- 1179648 \<le> fine" "fine \<le> 1179648"
    unfolding fine_def using var1 var2 by linarith+
  have t: "- 23040 \<le> t \<and> t \<le> 23041"
    unfolding t_def using fine by (intro div_within) simp_all
  have wf: "sint (CalcTrueTemp_var1 c + CalcTrueTemp_var2 c) = fine"
    unfolding fine_def using w1 w2 by (rule s32_add) (use var1 var2 in linarith)+
  have "sint (5 :: u32) = 5"
    by simp
  with wf have "sint ((CalcTrueTemp_var1 c + CalcTrueTemp_var2 c) * 5) = fine * 5"
    by (rule s32_mult) (use fine in linarith)+
  moreover have "sint (128 :: u32) = 128"
    by simp
  ultimately have "sint ((CalcTrueTemp_var1 c + CalcTrueTemp_var2 c) * 5 + 128) = fine * 5 + 128"
    by (rule s32_add) (use fine in linarith)+
  then have wt: "sint (signed_drop_bit 8 ((CalcTrueTemp_var1 c + CalcTrueTemp_var2 c) * 5 + 128)) = t"
    unfolding t_def by (rule s_shift)
  then have wr: "sint (ucast (signed_drop_bit 8
                   ((CalcTrueTemp_var1 c + CalcTrueTemp_var2 c) * 5 + 128)) :: u16) = t"
    by (rule sint_ucast_32_16) (use t in linarith)+
  have spec: "TrueTemperature_spec (sint (UT c)) (uint (dig_T1 c)) (sint (dig_T2 c))
                (sint (dig_T3 c)) = (fine, t)"
    by (simp add: TrueTemperature_spec_def Let_def fine_def t_def var1_def var2_def p1_def
        p2_def d2_def u3_def u4_def T1_def)
  have vals: "TrueTemperature_values (sint (UT c)) (uint (dig_T1 c)) (sint (dig_T2 c))
                (sint (dig_T3 c))
              = [T1 * 2, u3 - T1 * 2, p1, var1, d2, d2 * d2, p2, var2,
                 fine, fine * 5, fine * 5 + 128, t]"
    by (simp add: TrueTemperature_values_def Let_def fine_def t_def var1_def var2_def p1_def
        p2_def d2_def u3_def u4_def T1_def)
  have "list_all in_s32 [T1 * 2, u3 - T1 * 2, p1, var1, d2, d2 * d2, p2, var2,
                 fine, fine * 5, fine * 5 + 128, t]"
    unfolding d2_def [symmetric] using u T1 p1 sq p2 var1 var2 fine t
    by (simp add: in_s32_def d2_def)
  moreover have "sint (t_fine (CalibrationValues (BMP280 (snd (CalcTrueTemp s))))) = fine"
    using wf by (simp add: CalcTrueTemp_def Let_def c_def)
  moreover have "sint (fst (CalcTrueTemp s)) = t"
    using wr by (simp add: CalcTrueTemp_def Let_def c_def)
  moreover have "CalibrationValues (BMP280 (snd (CalcTrueTemp s)))
           = c\<lparr>t_fine := t_fine (CalibrationValues (BMP280 (snd (CalcTrueTemp s)))),
               cal_T := fst (CalcTrueTemp s)\<rparr>"
    by (simp add: CalcTrueTemp_def Let_def c_def)
  ultimately show ?thesis
    by (simp only: spec vals)
qed

theorem CalcTrueTemp_vendor_sequence_witness:
  "valid_temp_range (CalibrationValues (BMP280 (load_reference station_init)))
   \<and> list_all in_s32 (TrueTemperature_values 519888 27504 26435 (- 1000))
   \<and> (sint (t_fine (CalibrationValues (BMP280 (snd (CalcTrueTemp (load_reference station_init)))))),
      sint (fst (CalcTrueTemp (load_reference station_init))))
     = TrueTemperature_spec 519888 27504 26435 (- 1000)
   \<and> TrueTemperature_spec 519888 27504 26435 (- 1000) = (128422, 2508)"
proof -
  have v: "valid_temp_range (CalibrationValues (BMP280 (load_reference station_init)))"
    by (simp add: valid_temp_range_def load_reference_def Let_def)
  have "TrueTemperature_spec 519888 27504 26435 (- 1000) = (128422, 2508)"
    by (simp add: TrueTemperature_spec_def Let_def)
  with v CalcTrueTemp_vendor_sequence [OF v] show ?thesis
    by (simp add: load_reference_def)
qed

text \<open>
  Outside that range the 32-bit product wraps: with \<open>dig_T1 = 0\<close>,
  \<open>dig_T2 = 32767\<close> and the raw count \<open>0xFFFFF\<close> the function computes
  \<open>var1 = -80\<close>, while the sequence on unbounded integers gives 2097072.
\<close>

lemma CalcTrueTemp_wraps_outside_range:
  "sint (CalcTrueTemp_var1 (CalibrationValues (BMP280 station_wide_calibration))) = - 80
   \<and> ((1048575 div 2 ^ 3 - 0 * 2) * 32767) div 2 ^ 11 = (2097072 :: int)
   \<and> \<not> valid_temp_range (CalibrationValues (BMP280 station_wide_calibration))"
  by (simp add: CalcTrueTemp_var1_def station_wide_calibration_def station_init_def
      valid_temp_range_def Let_def)

section \<open>Decoding the calibration block\<close>

lemma byte_masks: "(0xFF :: u64) = mask 8" "(0xFF00 :: u64) = push_bit 8 (mask 8)"
  by (simp_all add: mask_eq_exp_minus_1)

lemma calib_coeff_swap:
  "sh \<le> 48 \<Longrightarrow> calib_coeff data sh = byte_swap16 (ucast (drop_bit sh data))"
  unfolding calib_coeff_def byte_swap16_def byte_masks
  by (rule bit_word_eqI) (auto simp add: bit_simps ac_simps)

lemma calib_coeff0_swap: "calib_coeff0 data = byte_swap16 (ucast data)"
  unfolding calib_coeff0_def byte_swap16_def byte_masks
  by (rule bit_word_eqI) (auto simp add: bit_simps ac_simps)

lemma ReadBMP280Calibration_steps:
  "fold (ReadBMP280Calibration_step ReadMulti) [0, 1, 2] c =
     c\<lparr>dig_T1 := calib_coeff (ReadMulti calib00) 48, dig_T2 := calib_coeff (ReadMulti calib00) 32,
       dig_T3 := calib_coeff (ReadMulti calib00) 16, dig_P1 := calib_coeff0 (ReadMulti calib00),
       dig_P2 := calib_coeff (ReadMulti calib08) 48, dig_P3 := calib_coeff (ReadMulti calib08) 32,
       dig_P4 := calib_coeff (ReadMulti calib08) 16, dig_P5 := calib_coeff0 (ReadMulti calib08),
       dig_P6 := calib_coeff (ReadMulti calib16) 48, dig_P7 := calib_coeff (ReadMulti calib16) 32,
       dig_P8 := calib_coeff (ReadMulti calib16) 16, dig_P9 := calib_coeff0 (ReadMulti calib16)\<rparr>"
  by (simp add: ReadBMP280Calibration_step_def Let_def)

text \<open>
  Claim C8. For every three 64-bit words that the reads at \<open>calib00\<close>, \<open>calib08\<close>
  and \<open>calib16\<close> return, \<open>ReadBMP280Calibration\<close> stores in each of the twelve
  coefficients the 16-bit byte swap of its 16-bit field (shift 48, 32, 16 and 0 of
  its word), leaves the rest of the station as it was, and the C expression of the
  source is that byte swap.
\<close>

theorem ReadBMP280Calibration_byte_swap:
  "ReadBMP280Calibration ReadMulti s =
     s\<lparr>BMP280 := (BMP280 s)\<lparr>CalibrationValues := (CalibrationValues (BMP280 s))
       \<lparr>dig_T1 := byte_swap16 (ucast (drop_bit 48 (ReadMulti calib00))),
        dig_T2 := byte_swap16 (ucast (drop_bit 32 (ReadMulti calib00))),
        dig_T3 := byte_swap16 (ucast (drop_bit 16 (ReadMulti calib00))),
        dig_P1 := byte_swap16 (ucast (ReadMulti calib00)),
        dig_P2 := byte_swap16 (ucast (drop_bit 48 (ReadMulti calib08))),
        dig_P3 := byte_swap16 (ucast (drop_bit 32 (ReadMulti calib08))),
        dig_P4 := byte_swap16 (ucast (drop_bit 16 (ReadMulti calib08))),
        dig_P5 := byte_swap16 (ucast (ReadMulti calib08)),
        dig_P6 := byte_swap16 (ucast (drop_bit 48 (ReadMulti calib16))),
        dig_P7 := byte_swap16 (ucast (drop_bit 32 (ReadMulti calib16))),
        dig_P8 := byte_swap16 (ucast (drop_bit 16 (ReadMulti calib16))),
        dig_P9 := byte_swap16 (ucast (ReadMulti calib16))\<rparr>\<rparr>\<rparr>
   \<and> calib_coeff data 48 = byte_swap16 (ucast (drop_bit 48 data))
   \<and> calib_coeff data 32 = byte_swap16 (ucast (drop_bit 32 data))
   \<and> calib_coeff data 16 = byte_swap16 (ucast (drop_bit 16 data))
   \<and> calib_coeff0 data = byte_swap16 (ucast data)"
  by (simp only: ReadBMP280Calibration_def ReadBMP280Calibration_steps)
    (simp add: calib_coeff_swap calib_coeff0_swap)

text \<open>The bytes \<open>0x70, 0x6B\<close> at the top of the first word give \<open>dig_T1 = 27504\<close>.\<close>

lemma calib_coeff_example:
  "calib_coeff 0x706B000000000000 48 = 27504" "byte_swap16 0x706B = 0x6B70"
  by (simp_all add: calib_coeff_def byte_swap16_def)

section \<open>Humidity or temperature by the status bit\<close>

lemma status_bit1: "(ucast (r :: u16) :: u32) AND 2 \<noteq> 0 \<longleftrightarrow> bit r 1"
  using and_exp_eq_0_iff_not_bit [of "ucast r :: u32" 1] by (simp add: bit_simps)

lemma status_bit1_value:
  assumes "bit (r :: u16) 1"
  shows "2 \<le> unat r"
proof (rule ccontr)
  assume "\<not> 2 \<le> unat r"
  then have "unat r = 0 \<or> unat r = 1"
    by linarith
  then have "r = 0 \<or> r = 1"
    by (simp add: word_unat_eq_iff)
  with assms show False
    by auto
qed

lemma reader_minus_2:
  assumes "bit (r :: u16) 1"
  shows "real (unat ((ucast r :: u32) - 2)) = real (unat r) - 2"
proof -
  have r: "2 \<le> unat r"
    using assms by (rule status_bit1_value)
  then have "(2 :: u32) \<le> ucast r"
    by (simp add: word_le_nat_alt unat_ucast_16_32)
  then have "unat ((ucast r :: u32) - 2) = unat (ucast r :: u32) - unat (2 :: u32)"
    by (rule unat_sub)
  then show ?thesis
    using r by (simp add: unat_ucast_16_32)
qed

text \<open>
  Claim C4, as the code has it. Of the value \<open>r\<close> that \<open>CRC8MAXIM\<close> returns for
  the raw word, \<open>Separator\<close> examines bit 1 only. When it is set the result is the
  relative humidity \<open>((r - 2) / 65536) * 125 - 6\<close>, the status bit being cleared
  before the scaling, and the temperature is kept; otherwise the result is the
  temperature \<open>(r / 65536) * 175.72 - 46.85\<close> and the humidity is kept. The
  function returns 0.
\<close>

theorem Separator_by_status_bit:
  "Separator CRC8MAXIM data s =
     (0, if bit (CRC8MAXIM data) 1
         then s\<lparr>SHT21 := (SHT21 s)
                \<lparr>RH := Fin ((real (unat (CRC8MAXIM data)) - 2) / 65536 * 125 - 6)\<rparr>\<rparr>
         else s\<lparr>SHT21 := (SHT21 s)
                \<lparr>sht_T := Fin (real (unat (CRC8MAXIM data)) / 65536 * 175.72 - 46.85)\<rparr>\<rparr>)"
proof (cases "bit (CRC8MAXIM data) 1")
  case True
  have "cd_of_u32 (ucast (CRC8MAXIM data) - 2) = Fin (real (unat (CRC8MAXIM data)) - 2)"
    using True by (simp only: cd_of_u32_def reader_minus_2)
  with True show ?thesis
    by (simp add: Separator_def Let_def status_bit1 cd_sub_def)
next
  case False
  then show ?thesis
    by (simp add: Separator_def Let_def status_bit1 cd_of_u32_def cd_sub_def unat_ucast_16_32)
qed

theorem Separator_by_status_bit_witness:
  "bit (ucast (0x7C82 :: u32) :: u16) 1
   \<and> Separator ucast 0x7C82 station_init =
       (0, station_init\<lparr>SHT21 := (SHT21 station_init)
              \<lparr>RH := Fin ((31874 - 2) / 65536 * 125 - 6)\<rparr>\<rparr>)
   \<and> \<not> bit (ucast (0x6A00 :: u32) :: u16) 1
   \<and> Separator ucast 0x6A00 station_init =
       (0, station_init\<lparr>SHT21 := (SHT21 station_init)
              \<lparr>sht_T := Fin (27136 / 65536 * 175.72 - 46.85)\<rparr>\<rparr>)"
proof -
  have a: "bit (ucast (0x7C82 :: u32) :: u16) 1" "\<not> bit (ucast (0x6A00 :: u32) :: u16) 1"
    by (simp_all add: bit_simps)
  have b: "real (unat (ucast (0x7C82 :: u32) :: u16)) = 31874"
    "real (unat (ucast (0x6A00 :: u32) :: u16)) = 27136"
    by simp_all
  from a show ?thesis
    using Separator_by_status_bit [of ucast "0x7C82" station_init]
      Separator_by_status_bit [of ucast "0x6A00" station_init]
    by (simp only: b if_True if_False simp_thms)
qed

text \<open>
  Claim C4, as the specification states it, fails: for the raw word 2, passed on
  unchanged by \<open>CRC8MAXIM\<close>, the status bit is set and the humidity is \<open>- 6\<close>, not
  \<open>(2 / 65536) * 125 - 6\<close>.
\<close>

theorem Separator_humidity_counterexample:
  "RH (SHT21 (snd (Separator ucast 2 station_init))) = Fin (- 6)
   \<and> RH (SHT21 (snd (Separator ucast 2 station_init))) \<noteq> Fin (2 / 65536 * 125 - 6)"
  by (simp add: Separator_def Let_def station_init_def cd_of_u32_def cd_sub_def)

section \<open>The refraction correction and the retained angles\<close>

lemma correct_solar_angles_below:
  "\<not> cd_gt (elevation (SUN s)) (Fin 0) \<Longrightarrow> correct_solar_angles s = s"
  by (simp add: correct_solar_angles_def)

lemma executeCommand_adj:
  "adjelevation (SUN (executeCommand az el s)) = adjelevation (SUN s)"
  "adjazimuth (SUN (executeCommand az el s)) = adjazimuth (SUN s)"
  by (simp_all add: executeCommand_def Let_def split: option.splits)

lemma executeCommand_elevation:
  "elevation (SUN (executeCommand az el s)) =
     (case el of None \<Rightarrow> elevation (SUN s) | Some e \<Rightarrow> e)"
  by (simp add: executeCommand_def Let_def split: option.splits)

text \<open>
  Claim C10, as the code has it. When the raw elevation is at or below 0,
  \<open>calculate_refraction\<close> returns 0.0 and the station it leaves is the one it
  found. It changes the station only when the elevation is not at or below 0 (it
  is above 0, or it is not a number) and \<open>Date_Clock.altitude\<close> is above 0; and
  whenever both hold the shared pressure is the old one times the altitude-lapse
  factor. For an elevation that is a number, not at or below 0 is the same as
  above 0; and through \<open>correct_solar_angles\<close>, the only caller, which tests
  \<open>> 0\<close> itself, the pressure changes only when the elevation is above 0 and the
  altitude is above 0.
\<close>

theorem calculate_refraction_below_horizon:
  "(cd_le (elevation (SUN s)) (Fin 0) \<longrightarrow> calculate_refraction s = (Fin 0, s))
   \<and> (snd (calculate_refraction s) \<noteq> s \<longrightarrow>
        \<not> cd_le (elevation (SUN s)) (Fin 0) \<and> 0 < sint (Date_Clock_altitude s))
   \<and> (\<not> cd_le (elevation (SUN s)) (Fin 0) \<and> 0 < sint (Date_Clock_altitude s) \<longrightarrow>
        Pressure (BMP280 (snd (calculate_refraction s))) =
          cd_mul (Pressure (BMP280 s))
            (cd_pow (cd_sub (Fin 1)
               (cd_div (cd_mul (Fin 0.0065) (cd_of_s16 (Date_Clock_altitude s))) (Fin 288.15)))
               5.255))
   \<and> (elevation (SUN s) \<noteq> NaN \<longrightarrow>
        (\<not> cd_le (elevation (SUN s)) (Fin 0)) = cd_gt (elevation (SUN s)) (Fin 0))
   \<and> (Pressure (BMP280 (correct_solar_angles s)) \<noteq> Pressure (BMP280 s) \<longrightarrow>
        cd_gt (elevation (SUN s)) (Fin 0) \<and> 0 < sint (Date_Clock_altitude s))"
proof -
  have a: "(cd_le (elevation (SUN s)) (Fin 0) \<longrightarrow> calculate_refraction s = (Fin 0, s))
   \<and> (snd (calculate_refraction s) \<noteq> s \<longrightarrow>
        \<not> cd_le (elevation (SUN s)) (Fin 0) \<and> 0 < sint (Date_Clock_altitude s))
   \<and> (\<not> cd_le (elevation (SUN s)) (Fin 0) \<and> 0 < sint (Date_Clock_altitude s) \<longrightarrow>
        Pressure (BMP280 (snd (calculate_refraction s))) =
          cd_mul (Pressure (BMP280 s))
            (cd_pow (cd_sub (Fin 1)
               (cd_div (cd_mul (Fin 0.0065) (cd_of_s16 (Date_Clock_altitude s))) (Fin 288.15)))
               5.255))"
    by (simp add: calculate_refraction_def Let_def)
  have b: "elevation (SUN s) \<noteq> NaN \<longrightarrow>
        (\<not> cd_le (elevation (SUN s)) (Fin 0)) = cd_gt (elevation (SUN s)) (Fin 0)"
    by (simp add: cd_gt_def)
  have c: "Pressure (BMP280 (correct_solar_angles s)) \<noteq> Pressure (BMP280 s) \<longrightarrow>
        cd_gt (elevation (SUN s)) (Fin 0) \<and> 0 < sint (Date_Clock_altitude s)"
    by (auto simp add: calculate_refraction_def correct_solar_angles_def Let_def cd_gt_def
        split: prod.splits if_splits)
  from a b c show ?thesis
    by (intro conjI) (elim conjE, assumption)+
qed

theorem calculate_refraction_below_horizon_witness:
  "cd_le (elevation (SUN station_init)) (Fin 0)
   \<and> calculate_refraction station_init = (Fin 0, station_init)
   \<and> elevation (SUN station_daylight) \<noteq> NaN
   \<and> \<not> cd_le (elevation (SUN station_daylight)) (Fin 0)
   \<and> cd_gt (elevation (SUN station_daylight)) (Fin 0)
   \<and> 0 < sint (Date_Clock_altitude station_daylight)
   \<and> Pressure (BMP280 (snd (calculate_refraction station_daylight))) =
        Fin (25763824 / 25600 * ((1 - 0.0065 * 100 / 288.15) powr 5.255))"
proof -
  have a: "cd_le (elevation (SUN station_init)) (Fin 0)"
    by (simp add: station_init_def)
  have b: "elevation (SUN station_daylight) \<noteq> NaN"
    "\<not> cd_le (elevation (SUN station_daylight)) (Fin 0)"
    "0 < sint (Date_Clock_altitude station_daylight)"
    by (simp_all add: station_daylight_def executeCommand_def station_at_100m_def
        station_init_def)
  have v: "cd_mul (Pressure (BMP280 station_daylight))
            (cd_pow (cd_sub (Fin 1)
               (cd_div (cd_mul (Fin 0.0065) (cd_of_s16 (Date_Clock_altitude station_daylight)))
                  (Fin 288.15)))
               5.255)
        = Fin (25763824 / 25600 * ((1 - 0.0065 * 100 / 288.15) powr 5.255))"
    by (simp add: station_daylight_def executeCommand_def station_at_100m_def
        station_init_def cd_sub_def cd_of_s16_def)
  have "calculate_refraction station_init = (Fin 0, station_init)"
    using a calculate_refraction_below_horizon [of station_init] by blast
  moreover have "cd_gt (elevation (SUN station_daylight)) (Fin 0)"
    using b calculate_refraction_below_horizon [of station_daylight] by blast
  moreover have "Pressure (BMP280 (snd (calculate_refraction station_daylight))) =
        Fin (25763824 / 25600 * ((1 - 0.0065 * 100 / 288.15) powr 5.255))"
    using b calculate_refraction_below_horizon [of station_daylight]
    by (simp only: v [symmetric]) blast
  ultimately show ?thesis
    using a b by blast
qed

text \<open>
  Claim C10, as it is stated, fails for the function: with an elevation that is
  not a number, which is neither at or below 0 nor above 0, and an altitude of
  100 m, \<open>calculate_refraction\<close> does not return at its test and multiplies the
  shared pressure by the altitude-lapse factor, while \<open>correct_solar_angles\<close>
  leaves the station as it is.
\<close>

theorem calculate_refraction_nan_counterexample:
  "\<not> cd_gt (elevation (SUN station_nan_elevation)) (Fin 0)
   \<and> \<not> cd_le (elevation (SUN station_nan_elevation)) (Fin 0)
   \<and> Pressure (BMP280 station_nan_elevation) = Fin (25763824 / 25600)
   \<and> Pressure (BMP280 (snd (calculate_refraction station_nan_elevation)))
       = Fin (25763824 / 25600 * ((1 - 0.0065 * 100 / 288.15) powr 5.255))
   \<and> Pressure (BMP280 (snd (calculate_refraction station_nan_elevation)))
       \<noteq> Pressure (BMP280 station_nan_elevation)
   \<and> correct_solar_angles station_nan_elevation = station_nan_elevation"
proof -
  let ?b = "1 - 0.0065 * 100 / 288.15 :: real"
  let ?P = "25763824 / 25600 :: real"
  have e: "elevation (SUN station_nan_elevation) = NaN"
    by (simp add: station_nan_elevation_def executeCommand_def)
  have g: "\<not> cd_gt (elevation (SUN station_nan_elevation)) (Fin 0)"
    "\<not> cd_le (elevation (SUN station_nan_elevation)) (Fin 0)"
    by (simp_all add: e cd_gt_def)
  have p0: "Pressure (BMP280 station_nan_elevation) = Fin ?P"
    by (simp add: station_nan_elevation_def executeCommand_def station_at_100m_def
        station_init_def)
  have alt: "Date_Clock_altitude station_nan_elevation = 100"
    by (simp add: station_nan_elevation_def executeCommand_def station_at_100m_def)
  have "Pressure (BMP280 (snd (calculate_refraction station_nan_elevation)))
       = cd_mul (Fin ?P) (cd_pow (cd_sub (Fin 1)
               (cd_div (cd_mul (Fin 0.0065) (cd_of_s16 100)) (Fin 288.15))) 5.255)"
    using g(2) by (simp add: calculate_refraction_def Let_def p0 alt)
  then have p: "Pressure (BMP280 (snd (calculate_refraction station_nan_elevation)))
       = Fin (?P * (?b powr 5.255))"
    by (simp add: cd_sub_def cd_of_s16_def)
  have "?b powr 5.255 < 1"
    by (rule powr_lt_one) simp_all
  then have "?P * (?b powr 5.255) < ?P"
    using mult_strict_left_mono [of "?b powr 5.255" 1 ?P] by simp
  then have ne: "Fin (?P * (?b powr 5.255)) \<noteq> Fin ?P"
    by simp
  have same: "correct_solar_angles station_nan_elevation = station_nan_elevation"
    using g(1) by (simp add: correct_solar_angles_def)
  show ?thesis
    using g p0 same ne by (simp only: p simp_thms)
qed

lemma Retransmitt_cycles_below:
  assumes "cd_le (elevation (SUN s)) (Fin 0)" and "below_horizon cmds"
  shows "adjelevation (SUN (Retransmitt_cycles cmds s)) = adjelevation (SUN s)
       \<and> adjazimuth (SUN (Retransmitt_cycles cmds s)) = adjazimuth (SUN s)"
  using assms
proof (induction cmds arbitrary: s)
  case Nil
  then show ?case
    by simp
next
  case (Cons cmd cmds)
  obtain az el where cmd: "cmd = (az, el)"
    by (cases cmd)
  let ?s1 = "executeCommand az el s"
  have le: "cd_le (elevation (SUN ?s1)) (Fin 0)"
    using Cons.prems cmd
    by (simp add: executeCommand_elevation below_horizon_def split: option.splits)
  then have r: "Retransmitt az el s = ?s1"
    by (simp add: Retransmitt_def correct_solar_angles_below cd_le_imp_not_gt)
  have "below_horizon cmds"
    using Cons.prems by (simp add: below_horizon_def)
  with le have "adjelevation (SUN (Retransmitt_cycles cmds ?s1)) = adjelevation (SUN ?s1)
       \<and> adjazimuth (SUN (Retransmitt_cycles cmds ?s1)) = adjazimuth (SUN ?s1)"
    by (rule Cons.IH)
  then show ?case
    by (simp add: cmd r executeCommand_adj)
qed

lemma funpow_fixed: "f s = s \<Longrightarrow> (f ^^ n) s = s"
  by (induction n) simp_all

text \<open>
  Claim C5. With a raw elevation at or below 0, \<open>correct_solar_angles\<close> leaves the
  station, and with it the adjusted elevation and azimuth, as it was, however often
  it is called; over any number of cycles whose commands keep the elevation at or
  below 0 the adjusted angles stay the retained ones; and from the initial station
  they stay 0 and 0.
\<close>

theorem correct_solar_angles_retains:
  assumes "cd_le (elevation (SUN s)) (Fin 0)" and "below_horizon cmds"
  shows "correct_solar_angles s = s
       \<and> (correct_solar_angles ^^ n) s = s
       \<and> adjelevation (SUN (Retransmitt_cycles cmds s)) = adjelevation (SUN s)
       \<and> adjazimuth (SUN (Retransmitt_cycles cmds s)) = adjazimuth (SUN s)
       \<and> adjelevation (SUN (Retransmitt_cycles cmds station_init)) = Fin 0
       \<and> adjazimuth (SUN (Retransmitt_cycles cmds station_init)) = Fin 0"
proof -
  have a: "correct_solar_angles s = s"
    using assms(1) by (simp add: correct_solar_angles_below cd_le_imp_not_gt)
  have "cd_le (elevation (SUN station_init)) (Fin 0)"
    by (simp add: station_init_def)
  then have "adjelevation (SUN (Retransmitt_cycles cmds station_init))
         = adjelevation (SUN station_init)
       \<and> adjazimuth (SUN (Retransmitt_cycles cmds station_init))
         = adjazimuth (SUN station_init)"
    using assms(2) by (rule Retransmitt_cycles_below)
  then have "adjelevation (SUN (Retransmitt_cycles cmds station_init)) = Fin 0
       \<and> adjazimuth (SUN (Retransmitt_cycles cmds station_init)) = Fin 0"
    by (simp add: station_init_def)
  with a Retransmitt_cycles_below [OF assms] funpow_fixed [of correct_solar_angles s n, OF a]
  show ?thesis
    by simp
qed

theorem correct_solar_angles_retains_witness:
  "cd_le (elevation (SUN station_init)) (Fin 0)
   \<and> below_horizon [(Some (Fin 90), Some (Fin (- 5))), (None, None), (Some (Fin 95), Some (Fin 0))]
   \<and> (correct_solar_angles ^^ 3) station_init = station_init
   \<and> adjelevation (SUN (Retransmitt_cycles
        [(Some (Fin 90), Some (Fin (- 5))), (None, None), (Some (Fin 95), Some (Fin 0))]
        station_init)) = Fin 0
   \<and> adjazimuth (SUN (Retransmitt_cycles
        [(Some (Fin 90), Some (Fin (- 5))), (None, None), (Some (Fin 95), Some (Fin 0))]
        station_init)) = Fin 0"
proof -
  have a: "cd_le (elevation (SUN station_init)) (Fin 0)"
    by (simp add: station_init_def)
  have b: "below_horizon
      [(Some (Fin 90), Some (Fin (- 5))), (None, None), (Some (Fin 95), Some (Fin 0))]"
    by (simp add: below_horizon_def)
  from a b correct_solar_angles_retains [OF a b, of 3] show ?thesis
    by blast
qed

lemma AltitudeAverage_UNCOMP_Fin:
  assumes "Pressure (BMP280 s) = Fin x" "0 < x"
  shows "UNCOMP (Altitude (AltitudeAverage s))
           = Fin (44330.7692307 * ((x / 1013.25) powr (- 0.1902632) - 1))"
  using assms by (simp add: AltitudeAverage_def Let_def SEA_LEVEL_PRESSURE_def cd_sub_def)

text \<open>
  Claim C3 does not hold of the code. At 100 m of observer altitude, with a
  pressure of 25763824 / 25600 hPa and a command that puts the sun 10 degrees above
  the horizon, \<open>Retransmitt\<close> leaves in \<open>BMP280.Pressure\<close> the pressure times the
  altitude-lapse factor, a different value, and the uncompensated altitude that
  \<open>AltitudeAverage\<close> computes afterwards differs from the one of the true pressure.
\<close>

theorem refraction_mutates_shared_pressure:
  "Pressure (BMP280 station_at_100m) = Fin (25763824 / 25600)
   \<and> Pressure (BMP280 (Retransmitt (Some (Fin 180)) (Some (Fin 10)) station_at_100m))
       = Fin (25763824 / 25600 * ((1 - 0.0065 * 100 / 288.15) powr 5.255))
   \<and> Pressure (BMP280 (Retransmitt (Some (Fin 180)) (Some (Fin 10)) station_at_100m))
       \<noteq> Pressure (BMP280 station_at_100m)
   \<and> UNCOMP (Altitude (AltitudeAverage
        (Retransmitt (Some (Fin 180)) (Some (Fin 10)) station_at_100m)))
       \<noteq> UNCOMP (Altitude (AltitudeAverage station_at_100m))"
proof -
  let ?b = "1 - 0.0065 * 100 / 288.15 :: real"
  let ?P = "25763824 / 25600 :: real"
  let ?s' = "Retransmitt (Some (Fin 180)) (Some (Fin 10)) station_at_100m"
  have b: "?b powr 5.255 < 1" "0 < ?b powr 5.255"
    by (rule powr_lt_one) simp_all
  have p0: "Pressure (BMP280 station_at_100m) = Fin ?P"
    by (simp add: station_at_100m_def station_init_def)
  have p: "Pressure (BMP280 ?s') = Fin (?P * (?b powr 5.255))"
    by (simp add: Retransmitt_def executeCommand_def correct_solar_angles_def
        calculate_refraction_def station_at_100m_def station_init_def Let_def cd_gt_Fin
        cd_sub_def cd_of_s16_def)
  have lt: "?P * (?b powr 5.255) < ?P"
    using b(1) mult_strict_left_mono [of "?b powr 5.255" 1 ?P] by simp
  have pos: "0 < ?P * (?b powr 5.255)"
    using b(2) by simp
  have "(?P / 1013.25) powr (- 0.1902632) < (?P * (?b powr 5.255) / 1013.25) powr (- 0.1902632)"
    using lt pos by (intro powr_less_mono2_neg) (simp_all add: divide_strict_right_mono)
  then have "44330.7692307 * ((?P / 1013.25) powr (- 0.1902632) - 1)
      \<noteq> (44330.7692307 :: real) * ((?P * (?b powr 5.255) / 1013.25) powr (- 0.1902632) - 1)"
    by simp
  then have "UNCOMP (Altitude (AltitudeAverage ?s'))
      \<noteq> UNCOMP (Altitude (AltitudeAverage station_at_100m))"
    by (simp only: AltitudeAverage_UNCOMP_Fin [OF p pos]
        AltitudeAverage_UNCOMP_Fin [OF p0, simplified] cdouble.inject) simp
  with p p0 lt show ?thesis
    by simp
qed

section \<open>The altitude computation has no guard\<close>

lemma not_integer_exponent: "\<not> is_integer (- 0.1902632)"
  by (simp add: is_integer_def)

lemma calculate_adjusted_elevation_negative:
  assumes "adjusted_pressure s = Fin a" "a < 0"
  shows "calculate_adjusted_elevation s = NaN"
proof -
  have "SEA_LEVEL_PRESSURE / a < 0"
    using assms(2) by (simp add: SEA_LEVEL_PRESSURE_def divide_neg_pos divide_pos_neg)
  moreover have "SEA_LEVEL_PRESSURE \<noteq> 0"
    by (simp add: SEA_LEVEL_PRESSURE_def)
  ultimately have "cd_log (cd_div (Fin SEA_LEVEL_PRESSURE) (adjusted_pressure s)) = NaN"
    using assms by simp
  then show ?thesis
    by (simp add: calculate_adjusted_elevation_def Let_def UNIVERSAL_GAS_CONSTANT_def
        MOLAR_MASS_AIR_def)
qed

lemma calculate_adjusted_elevation_zero:
  assumes "adjusted_pressure s = Fin 0"
  shows "\<not> cd_finite (calculate_adjusted_elevation s)"
proof -
  have "cd_log (cd_div (Fin SEA_LEVEL_PRESSURE) (adjusted_pressure s)) = PInf"
    using assms by (simp add: SEA_LEVEL_PRESSURE_def cd_signed_inf_def)
  then have "\<not> cd_finite (cd_mul (cd_div (cd_add (sht_T (SHT21 s)) (Fin const_T0)) (Fin GRAVITY))
      (cd_log (cd_div (Fin SEA_LEVEL_PRESSURE) (adjusted_pressure s))))"
    by (intro cd_mul_infinite_left) simp
  then show ?thesis
    unfolding calculate_adjusted_elevation_def Let_def
    by (simp add: UNIVERSAL_GAS_CONSTANT_def MOLAR_MASS_AIR_def cd_mul_infinite_right)
qed

lemma calculate_adjusted_elevation_domain_error:
  assumes "adjusted_pressure s = Fin a" "a \<le> 0"
  shows "\<not> cd_finite (calculate_adjusted_elevation s)"
proof (cases "a < 0")
  case True
  with assms(1) have "calculate_adjusted_elevation s = NaN"
    by (rule calculate_adjusted_elevation_negative)
  then show ?thesis
    by simp
next
  case False
  with assms have "adjusted_pressure s = Fin 0"
    by simp
  then show ?thesis
    by (rule calculate_adjusted_elevation_zero)
qed

lemma AltitudeAverage_UNCOMP_domain_error:
  assumes "Pressure (BMP280 s) = Fin x" "x \<le> 0"
  shows "UNCOMP (Altitude (AltitudeAverage s)) = (if x < 0 then NaN else PInf)"
  using assms not_integer_exponent
  by (simp add: AltitudeAverage_def Let_def SEA_LEVEL_PRESSURE_def cd_sub_def divide_neg_pos
      cd_signed_inf_def)

text \<open>
  Claim C6, as the code has it. \<open>calculate_adjusted_elevation\<close> and
  \<open>AltitudeAverage\<close> have no guard. When the adjusted pressure \<open>P - e\<close> is at or
  below 0 the compensated altitude is not a finite number (it is the NaN of
  \<open>log\<close> when \<open>P - e\<close> is negative), and the average stored with it is not finite
  either; when the pressure \<open>P\<close> is at or below 0 the uncompensated altitude is
  the NaN of \<open>pow\<close> for a negative \<open>P\<close> and infinite for 0.
\<close>

theorem altitude_unguarded:
  "(adjusted_pressure s = Fin a \<and> a \<le> 0 \<longrightarrow>
      \<not> cd_finite (calculate_adjusted_elevation s)
      \<and> COMP (Altitude (AltitudeAverage s)) = calculate_adjusted_elevation s
      \<and> \<not> cd_finite (AVRG (Altitude (AltitudeAverage s)))
      \<and> (a < 0 \<longrightarrow> COMP (Altitude (AltitudeAverage s)) = NaN
            \<and> AVRG (Altitude (AltitudeAverage s)) = NaN))
   \<and> (Pressure (BMP280 s) = Fin x \<and> x \<le> 0 \<longrightarrow>
      UNCOMP (Altitude (AltitudeAverage s)) = (if x < 0 then NaN else PInf))"
proof -
  have "\<not> cd_finite (AVRG (Altitude (AltitudeAverage s)))"
    if "adjusted_pressure s = Fin a" "a \<le> 0"
  proof -
    have "\<not> cd_finite (calculate_adjusted_elevation s)"
      using that by (rule calculate_adjusted_elevation_domain_error)
    then show ?thesis
      by (simp add: AltitudeAverage_def Let_def cd_add_infinite cd_div_infinite)
  qed
  moreover have "COMP (Altitude (AltitudeAverage s)) = calculate_adjusted_elevation s"
    by (simp add: AltitudeAverage_def Let_def)
  moreover have "AVRG (Altitude (AltitudeAverage s)) = NaN"
    if "adjusted_pressure s = Fin a" "a < 0"
    using calculate_adjusted_elevation_negative [OF that]
    by (simp add: AltitudeAverage_def Let_def)
  ultimately show ?thesis
    using calculate_adjusted_elevation_domain_error [of s a]
      calculate_adjusted_elevation_negative [of s a]
      AltitudeAverage_UNCOMP_domain_error [of s x]
    by auto
qed

theorem altitude_unguarded_witness:
  "adjusted_pressure station_saturated = Fin (- 6.112)
   \<and> Pressure (BMP280 station_saturated) = Fin 0
   \<and> \<not> cd_finite (calculate_adjusted_elevation station_saturated)
   \<and> AVRG (Altitude (AltitudeAverage station_saturated)) = NaN
   \<and> UNCOMP (Altitude (AltitudeAverage station_saturated)) = PInf"
proof -
  have a: "adjusted_pressure station_saturated = Fin (- 6.112)"
    by (simp add: adjusted_pressure_def vapor_pressure_def station_saturated_def station_init_def
        Let_def cd_sub_def const_A_def const_B_def const_C_def)
  have b: "Pressure (BMP280 station_saturated) = Fin 0"
    by (simp add: station_saturated_def station_init_def)
  from a b altitude_unguarded [of station_saturated "- 6.112" 0] show ?thesis
    by simp
qed

text \<open>
  Claim C6, as the specification states it, fails: with a pressure of 0 and a
  humidity of 100 % at 0 degrees the adjusted pressure is \<open>- 6.112\<close>, and the
  compensated and the averaged altitude are NaN, not a marker of their own.
\<close>

theorem altitude_domain_error_counterexample:
  "adjusted_pressure station_saturated = Fin (- 6.112)
   \<and> calculate_adjusted_elevation station_saturated = NaN
   \<and> COMP (Altitude (AltitudeAverage station_saturated)) = NaN
   \<and> AVRG (Altitude (AltitudeAverage station_saturated)) = NaN"
proof -
  have a: "adjusted_pressure station_saturated = Fin (- 6.112)"
    by (simp add: adjusted_pressure_def vapor_pressure_def station_saturated_def station_init_def
        Let_def cd_sub_def const_A_def const_B_def const_C_def)
  then have "calculate_adjusted_elevation station_saturated = NaN"
    by (rule calculate_adjusted_elevation_negative) simp
  with a show ?thesis
    by (simp add: AltitudeAverage_def Let_def)
qed

end
